theory Spec2Isabelle
  imports Complex_Main
begin

section \<open>Numbers, vectors and matrices\<close>

text \<open>
  The filter of \<^verbatim>\<open>src/src/ukf.cpp\<close> computes with \<^verbatim>\<open>double\<close> and with Eigen's
  \<^verbatim>\<open>VectorXd\<close> and \<^verbatim>\<open>MatrixXd\<close>. A \<^verbatim>\<open>double\<close> is modelled by a real number:
  arithmetic is exact, there is no rounding and no overflow. The single place where
  the code asks whether a value is NaN, the radar measurement transform, gets the
  exceptional results of an IEEE division written out (type \<open>double\<close> below).

  What is proved is therefore a statement about the values the code computes in exact
  arithmetic. Two places where a \<^verbatim>\<open>double\<close> departs from the real number it stands
  for are pointed out where they arise: the loops that normalize an angle, and the
  range of the radar measurement transform.

  A vector is its coefficient function, a matrix the function from row and column to
  the coefficient. The sizes are the ones the constructor allocates and no operation
  ever resizes; a coefficient outside the size is not part of the object and carries
  no meaning.
\<close>

type_synonym vec = "nat \<Rightarrow> real"
type_synonym mat = "nat \<Rightarrow> nat \<Rightarrow> real"

definition vec_of_list :: "real list \<Rightarrow> vec" where
  "vec_of_list xs = (\<lambda>i. if i < length xs then xs ! i else 0)"

definition mat_of_rows :: "real list list \<Rightarrow> mat" where
  "mat_of_rows rs = (\<lambda>i j. if i < length rs then vec_of_list (rs ! i) j else 0)"

definition zero_vec :: vec where
  "zero_vec = (\<lambda>i. 0)"

definition zero_mat :: mat where
  "zero_mat = (\<lambda>i j. 0)"

definition col :: "mat \<Rightarrow> nat \<Rightarrow> vec" where
  "col M c = (\<lambda>r. M r c)"

definition set_col :: "mat \<Rightarrow> nat \<Rightarrow> vec \<Rightarrow> mat" where
  "set_col M c v = (\<lambda>i j. if j = c then v i else M i j)"

definition set_coeff :: "mat \<Rightarrow> nat \<Rightarrow> nat \<Rightarrow> real \<Rightarrow> mat" where
  "set_coeff M r c a = (\<lambda>i j. if i = r \<and> j = c then a else M i j)"

definition vec_add :: "vec \<Rightarrow> vec \<Rightarrow> vec" where
  "vec_add u v = (\<lambda>i. u i + v i)"

definition vec_sub :: "vec \<Rightarrow> vec \<Rightarrow> vec" where
  "vec_sub u v = (\<lambda>i. u i - v i)"

definition vec_scale :: "real \<Rightarrow> vec \<Rightarrow> vec" where
  "vec_scale a v = (\<lambda>i. a * v i)"

definition mat_add :: "mat \<Rightarrow> mat \<Rightarrow> mat" where
  "mat_add A B = (\<lambda>i j. A i j + B i j)"

definition mat_sub :: "mat \<Rightarrow> mat \<Rightarrow> mat" where
  "mat_sub A B = (\<lambda>i j. A i j - B i j)"

definition mat_scale :: "mat \<Rightarrow> real \<Rightarrow> mat" where
  "mat_scale A a = (\<lambda>i j. A i j * a)"

definition transpose_mat :: "mat \<Rightarrow> mat" where
  "transpose_mat A = (\<lambda>i j. A j i)"

definition identity_mat :: mat where
  "identity_mat = (\<lambda>i j. if i = j then 1 else 0)"

text \<open>Products carry the inner size, which Eigen reads off its operands.\<close>

definition mat_mul :: "nat \<Rightarrow> mat \<Rightarrow> mat \<Rightarrow> mat" where
  "mat_mul n A B = (\<lambda>i j. \<Sum>k<n. A i k * B k j)"

definition mat_vec :: "nat \<Rightarrow> mat \<Rightarrow> vec \<Rightarrow> vec" where
  "mat_vec n A v = (\<lambda>i. \<Sum>k<n. A i k * v k)"

definition outer :: "vec \<Rightarrow> vec \<Rightarrow> mat" where
  "outer u v = (\<lambda>i j. u i * v j)"

definition quad_form :: "nat \<Rightarrow> vec \<Rightarrow> mat \<Rightarrow> real" where
  "quad_form n v A = (\<Sum>i<n. \<Sum>j<n. v i * A i j * v j)"

text \<open>
  \<^verbatim>\<open>M.block(r0, c0, nr, nc)\<close> on the left of \<^verbatim>\<open>=\<close>, \<^verbatim>\<open>+=\<close> and \<^verbatim>\<open>-=\<close>;
  \<^verbatim>\<open>topLeftCorner(nr, nc)\<close> is the block at \<open>(0, 0)\<close> and \<^verbatim>\<open>bottomRightCorner(nr, nc)\<close>
  of a matrix with \<open>R\<close> rows and \<open>C\<close> columns the block at \<open>(R - nr, C - nc)\<close>.
\<close>

definition in_block :: "nat \<Rightarrow> nat \<Rightarrow> nat \<Rightarrow> nat \<Rightarrow> nat \<Rightarrow> nat \<Rightarrow> bool" where
  "in_block r0 c0 nr nc i j = (r0 \<le> i \<and> i < r0 + nr \<and> c0 \<le> j \<and> j < c0 + nc)"

definition block_assign :: "nat \<Rightarrow> nat \<Rightarrow> nat \<Rightarrow> nat \<Rightarrow> mat \<Rightarrow> mat \<Rightarrow> mat" where
  "block_assign r0 c0 nr nc B M =
     (\<lambda>i j. if in_block r0 c0 nr nc i j then B (i - r0) (j - c0) else M i j)"

definition block_add :: "nat \<Rightarrow> nat \<Rightarrow> nat \<Rightarrow> nat \<Rightarrow> mat \<Rightarrow> mat \<Rightarrow> mat" where
  "block_add r0 c0 nr nc B M =
     (\<lambda>i j. if in_block r0 c0 nr nc i j then M i j + B (i - r0) (j - c0) else M i j)"

definition block_sub :: "nat \<Rightarrow> nat \<Rightarrow> nat \<Rightarrow> nat \<Rightarrow> mat \<Rightarrow> mat \<Rightarrow> mat" where
  "block_sub r0 c0 nr nc B M =
     (\<lambda>i j. if in_block r0 c0 nr nc i j then M i j - B (i - r0) (j - c0) else M i j)"

text \<open>\<^verbatim>\<open>v.segment(i0, n).fill(a)\<close>.\<close>

definition segment_fill :: "nat \<Rightarrow> nat \<Rightarrow> real \<Rightarrow> vec \<Rightarrow> vec" where
  "segment_fill i0 n a v = (\<lambda>i. if i0 \<le> i \<and> i < i0 + n then a else v i)"

text \<open>\<^verbatim>\<open>x_aug << x_.array(), 0, 0\<close>: the \<open>n\<close> coefficients of \<open>x\<close>, then zeros.\<close>

definition augment :: "nat \<Rightarrow> vec \<Rightarrow> vec" where
  "augment n x = (\<lambda>i. if i < n then x i else 0)"

text \<open>\<^verbatim>\<open>M.colwise() = v\<close>: every column becomes \<open>v\<close>.\<close>

definition colwise_assign :: "vec \<Rightarrow> mat" where
  "colwise_assign v = (\<lambda>i j. v i)"

section \<open>The filter object\<close>

datatype SensorType = LASER | RADAR

text \<open>
  Modelled from the spec: the headers that declare the members of
  \<^verbatim>\<open>MeasurementPackage\<close> and \<^verbatim>\<open>UKF\<close> are not among the sources, so the types of
  the members are. The timestamp is "an integer timestamp (microseconds)", here an
  unbounded integer; \<^verbatim>\<open>lambda_\<close> is "a fixed scalar design constant", here a real; the
  sizes \<^verbatim>\<open>n_x_\<close>, \<^verbatim>\<open>n_aug_\<close>, \<^verbatim>\<open>n_z_radar_\<close> only ever hold 5, 7 and 3 and are
  natural numbers. The members themselves, and everything done with them, are those of
  \<^verbatim>\<open>ukf.cpp\<close>. Isabelle admits no name that ends in an underscore, so a member
  \<^verbatim>\<open>foo_\<close> is the field \<open>foo_m\<close>.
\<close>

record MeasurementPackage =
  timestamp_m :: int
  sensor_type_m :: SensorType
  raw_measurements_m :: vec

record UKF =
  is_initialized_m :: bool
  previous_timestamp_m :: int
  x_m :: vec
  x_aug :: vec
  P_m :: mat
  P_aug :: mat
  Q_m :: mat
  Xsig_m :: mat
  Xsig_pred_m :: mat
  Zsig_m :: mat
  weights_m :: vec
  H_laser_m :: mat
  R_laser_m :: mat
  R_radar_m :: mat
  std_a_m :: real
  std_yawdd_m :: real
  std_laspx_m :: real
  std_laspy_m :: real
  std_radr_m :: real
  std_radphi_m :: real
  std_radrd_m :: real
  n_x_m :: nat
  n_aug_m :: nat
  n_z_radar_m :: nat
  lambda_m :: real
  NIS_radar_m :: real
  NIS_laser_m :: real

text \<open>
  \<^verbatim>\<open>UKF::UKF()\<close>. A freshly allocated Eigen object holds whatever the memory held,
  and so do the members the constructor never assigns (\<^verbatim>\<open>previous_timestamp_\<close>, the
  NIS values); \<open>mem\<close> stands for these contents. Note that of \<^verbatim>\<open>P_aug\<close> only the two
  diagonal blocks are ever written.
\<close>

definition UKF_ctor :: "UKF \<Rightarrow> UKF" where
  "UKF_ctor mem =
    (let std_a = 0.63;
         std_yawdd = 1.2;
         std_laspx = 0.0225;
         std_laspy = 0.0225;
         std_radr = 0.9;
         std_radphi = 0.005;
         std_radrd = 0.5;
         n_x = 5;
         n_aug = n_x + 2;
         lambda = real_of_int (3 - int n_aug);
         Q = mat_of_rows [[std_a * std_a, 0],
                          [0, std_yawdd * std_yawdd]];
         P = mat_of_rows [[1, 0, 0, 0, 0],
                          [0, 1, 0, 0, 0],
                          [0, 0, 1000, 0, 0],
                          [0, 0, 0, 100, 0],
                          [0, 0, 0, 0, 1]];
         P_aug1 = block_assign 0 0 n_x n_x P (P_aug mem);
         P_aug2 = block_assign (7 - 2) (7 - 2) 2 2 Q P_aug1;
         weights1 = segment_fill 1 (2 * n_aug) (0.5 / (real n_aug + lambda)) (weights_m mem);
         weights2 = weights1(0 := lambda / (lambda + real n_aug));
         n_z_radar = 3
     in mem\<lparr>is_initialized_m := False,
            std_a_m := std_a, std_yawdd_m := std_yawdd,
            std_laspx_m := std_laspx, std_laspy_m := std_laspy,
            std_radr_m := std_radr, std_radphi_m := std_radphi, std_radrd_m := std_radrd,
            n_x_m := n_x, n_aug_m := n_aug, lambda_m := lambda,
            Q_m := Q, P_m := P, P_aug := P_aug2,
            weights_m := weights2,
            n_z_radar_m := n_z_radar,
            H_laser_m := mat_of_rows [[1, 0, 0, 0, 0],
                                      [0, 1, 0, 0, 0]],
            R_laser_m := mat_of_rows [[std_laspx, 0],
                                      [0, std_laspy]],
            R_radar_m := mat_of_rows [[std_radr * std_radr, 0, 0],
                                      [0, std_radphi * std_radphi, 0],
                                      [0, 0, std_radrd * std_radrd]]\<rparr>)"

section \<open>Angle normalization\<close>

text \<open>
  The two loops that follow every angle residual in the source,
  \<^verbatim>\<open>while (d > M_PI) d -= 2. * M_PI;  while (d < -M_PI) d += 2. * M_PI;\<close>
  Over the reals both terminate: the number of remaining half turns decreases. The
  functions below give the value with which the loops are left, and nothing proved
  from them says that the loops of the source are left: on a \<^verbatim>\<open>double\<close> of magnitude
  \<open>10 ^ 17\<close> or more, neighbouring values are more than \<open>2 * pi\<close> apart, the subtraction
  gives back its own argument, and the loop of the source runs for ever.
\<close>

function while_above_pi :: "real \<Rightarrow> real" where
  "while_above_pi d = (if d > pi then while_above_pi (d - 2 * pi) else d)"
  by pat_completeness auto
termination
proof (relation "measure (\<lambda>d. nat \<lceil>d / pi\<rceil>)")
  show "wf (measure (\<lambda>d. nat \<lceil>d / pi\<rceil>))" by simp
next
  fix d :: real
  assume above: "pi < d"
  have shift: "(d - 2 * pi) / pi = d / pi - 2"
    by (simp add: field_simps)
  have "1 < d / pi"
    using above pi_gt_zero by (simp add: field_simps)
  then have "1 < \<lceil>d / pi\<rceil>"
    by linarith
  then have "nat \<lceil>d / pi - 2\<rceil> < nat \<lceil>d / pi\<rceil>"
    by linarith
  then have "nat \<lceil>(d - 2 * pi) / pi\<rceil> < nat \<lceil>d / pi\<rceil>"
    by (simp only: shift)
  then show "(d - 2 * pi, d) \<in> measure (\<lambda>d. nat \<lceil>d / pi\<rceil>)"
    unfolding in_measure .
qed

function while_below_minus_pi :: "real \<Rightarrow> real" where
  "while_below_minus_pi d = (if d < - pi then while_below_minus_pi (d + 2 * pi) else d)"
  by pat_completeness auto
termination
proof (relation "measure (\<lambda>d. nat \<lceil>- d / pi\<rceil>)")
  show "wf (measure (\<lambda>d. nat \<lceil>- d / pi\<rceil>))" by simp
next
  fix d :: real
  assume below: "d < - pi"
  have shift: "- (d + 2 * pi) / pi = - d / pi - 2"
    by (simp add: field_simps)
  have "1 < - d / pi"
    using below pi_gt_zero by (simp add: field_simps)
  then have "1 < \<lceil>- d / pi\<rceil>"
    by linarith
  then have "nat \<lceil>- d / pi - 2\<rceil> < nat \<lceil>- d / pi\<rceil>"
    by linarith
  then have "nat \<lceil>- (d + 2 * pi) / pi\<rceil> < nat \<lceil>- d / pi\<rceil>"
    by (simp only: shift)
  then show "(d + 2 * pi, d) \<in> measure (\<lambda>d. nat \<lceil>- d / pi\<rceil>)"
    unfolding in_measure .
qed

declare while_above_pi.simps [simp del]
declare while_below_minus_pi.simps [simp del]

definition normalize_angle :: "real \<Rightarrow> real" where
  "normalize_angle d = while_below_minus_pi (while_above_pi d)"

text \<open>The loops applied to coefficient \<open>k\<close> of a residual vector.\<close>

definition normalize_coeff :: "nat \<Rightarrow> vec \<Rightarrow> vec" where
  "normalize_coeff k v = v(k := normalize_angle (v k))"

text \<open>
  \<^verbatim>\<open>x_diff = Xsig_pred_.col(i) - x_\<close> with its heading (coefficient 3) normalized:
  lines 252 to 255 of \<^verbatim>\<open>Prediction\<close> and 358 to 361 of \<^verbatim>\<open>UpdateRadar\<close>.
\<close>

definition x_diff_at :: "mat \<Rightarrow> vec \<Rightarrow> nat \<Rightarrow> vec" where
  "x_diff_at Xsig_pred x i = normalize_coeff 3 (vec_sub (col Xsig_pred i) x)"

text \<open>
  \<^verbatim>\<open>z_diff = Zsig_.col(i) - z_pred\<close> with its bearing (coefficient 1) normalized:
  lines 334 to 338 and 352 to 355 of \<^verbatim>\<open>UpdateRadar\<close>.
\<close>

definition z_diff_at :: "mat \<Rightarrow> vec \<Rightarrow> nat \<Rightarrow> vec" where
  "z_diff_at Zsig z_pred i = normalize_coeff 1 (vec_sub (col Zsig i) z_pred)"

text \<open>The final radar innovation \<^verbatim>\<open>z - z_pred\<close>, lines 370 to 375.\<close>

definition radar_innovation :: "vec \<Rightarrow> vec \<Rightarrow> vec" where
  "radar_innovation z z_pred = normalize_coeff 1 (vec_sub z z_pred)"

section \<open>Prediction\<close>

text \<open>
  The body of the loop over the sigma points (lines 201 to 238), in its two parts:
  the motion of the point, and the injection of the two noise coefficients.
  \<open>X\<close> is a column of \<^verbatim>\<open>Xsig_\<close>.
\<close>

definition ctrv_motion :: "real \<Rightarrow> vec \<Rightarrow> vec" where
  "ctrv_motion delta_t X =
    (let p_x = X 0; p_y = X 1; v = X 2; yaw = X 3; yawd = X 4;
         (px_p, py_p) =
           (if \<bar>yawd\<bar> > 0.001
            then (p_x + v / yawd * (sin (yaw + yawd * delta_t) - sin yaw),
                  p_y + v / yawd * (cos yaw - cos (yaw + yawd * delta_t)))
            else (p_x + v * delta_t * cos yaw,
                  p_y + v * delta_t * sin yaw));
         v_p = v;
         yaw_p = yaw + yawd * delta_t;
         yawd_p = yawd
     in vec_of_list [px_p, py_p, v_p, yaw_p, yawd_p])"

definition add_noise :: "real \<Rightarrow> vec \<Rightarrow> vec \<Rightarrow> vec" where
  "add_noise delta_t X p =
    (let yaw = X 3; nu_a = X 5; nu_yawdd = X 6;
         px_p = p 0 + 0.5 * nu_a * delta_t * delta_t * cos yaw;
         py_p = p 1 + 0.5 * nu_a * delta_t * delta_t * sin yaw;
         v_p = p 2 + nu_a * delta_t;
         yaw_p = p 3 + 0.5 * nu_yawdd * delta_t * delta_t;
         yawd_p = p 4 + nu_yawdd * delta_t
     in vec_of_list [px_p, py_p, v_p, yaw_p, yawd_p])"

definition predict_sigma_point :: "real \<Rightarrow> vec \<Rightarrow> vec" where
  "predict_sigma_point delta_t X = add_noise delta_t X (ctrv_motion delta_t X)"

text \<open>
  \<^verbatim>\<open>UKF::Prediction\<close>. Eigen's \<^verbatim>\<open>M.llt().matrixL()\<close> is not among the sources; it is
  the parameter \<open>llt\<close>, a function from the matrix to the factor handed back. The
  call returns a matrix whatever the input, and \<^verbatim>\<open>Prediction\<close> never asks the
  decomposition whether it succeeded.
\<close>

definition Prediction :: "(mat \<Rightarrow> mat) \<Rightarrow> real \<Rightarrow> UKF \<Rightarrow> UKF" where
  "Prediction llt delta_t s =
    (let n_sig = 2 * n_aug_m s + 1;
         x_aug1 = augment 5 (x_m s);
         P_aug1 = block_assign 0 0 (n_x_m s) (n_x_m s) (P_m s) (P_aug s);
         P_aug2 = block_assign (7 - 2) (7 - 2) 2 2 (Q_m s) P_aug1;
         A = llt P_aug2;
         Xsig1 = colwise_assign x_aug1;
         offset = mat_scale A (sqrt (lambda_m s + real (n_aug_m s)));
         Xsig2 = block_add 0 1 (n_aug_m s) (n_aug_m s) offset Xsig1;
         Xsig3 = block_sub 0 (n_aug_m s + 1) (n_aug_m s) (n_aug_m s) offset Xsig2;
         Xsig_pred1 = foldl (\<lambda>M i. set_col M i (predict_sigma_point delta_t (col Xsig3 i)))
                        (Xsig_pred_m s) [0..<n_sig];
         x1 = foldl (\<lambda>x i. vec_add x (vec_scale (weights_m s i) (col Xsig_pred1 i)))
                zero_vec [0..<n_sig];
         P1 = foldl (\<lambda>P i. mat_add P (outer (vec_scale (weights_m s i) (x_diff_at Xsig_pred1 x1 i))
                                             (x_diff_at Xsig_pred1 x1 i)))
                zero_mat [0..<n_sig]
     in s\<lparr>x_aug := x_aug1, P_aug := P_aug2, Xsig_m := Xsig3, Xsig_pred_m := Xsig_pred1,
           x_m := x1, P_m := P1\<rparr>)"

text \<open>The augmented covariance that \<^verbatim>\<open>Prediction\<close> factorizes (lines 184 and 185).\<close>

definition augmented_covariance :: "UKF \<Rightarrow> mat" where
  "augmented_covariance s =
     block_assign (7 - 2) (7 - 2) 2 2 (Q_m s)
       (block_assign 0 0 (n_x_m s) (n_x_m s) (P_m s) (P_aug s))"

text \<open>Positive definiteness of an \<open>n\<close> by \<open>n\<close> matrix, and what a Cholesky factor is.\<close>

definition positive_definite :: "nat \<Rightarrow> mat \<Rightarrow> bool" where
  "positive_definite n M =
     (\<forall>v. (\<exists>i<n. v i \<noteq> 0) \<longrightarrow> 0 < quad_form n v M)"

definition is_factor_of :: "nat \<Rightarrow> mat \<Rightarrow> mat \<Rightarrow> bool" where
  "is_factor_of n L M =
     list_all (\<lambda>i. list_all (\<lambda>j. mat_mul n L (transpose_mat L) i j = M i j) [0..<n]) [0..<n]"

text \<open>
  A concrete factorization for the examples: the Cholesky factor of a diagonal matrix
  is the diagonal matrix of the roots.
\<close>

definition llt_diagonal :: "mat \<Rightarrow> mat" where
  "llt_diagonal M = (\<lambda>i j. if i = j then sqrt (M i i) else 0)"

section \<open>Lidar update\<close>

text \<open>
  \<^verbatim>\<open>UKF::UpdateLidar\<close>. Eigen's \<^verbatim>\<open>inverse()\<close> is the parameter \<open>inverse_mat\<close>. The inner
  sizes of the products are those of \<^verbatim>\<open>H_laser_\<close> (2 by 5) and \<^verbatim>\<open>P_\<close> (5 by 5).
  The innovation covariance \<^verbatim>\<open>S\<close> of line 271 has a definition of its own.
\<close>

definition lidar_S :: "UKF \<Rightarrow> mat" where
  "lidar_S s =
    (let Ht = transpose_mat (H_laser_m s)
     in mat_add (mat_mul 5 (mat_mul 5 (H_laser_m s) (P_m s)) Ht) (R_laser_m s))"

definition UpdateLidar :: "(mat \<Rightarrow> mat) \<Rightarrow> MeasurementPackage \<Rightarrow> UKF \<Rightarrow> UKF" where
  "UpdateLidar inverse_mat measurement_pack s =
    (let z = raw_measurements_m measurement_pack;
         z_pred = mat_vec 5 (H_laser_m s) (x_m s);
         z_diff = vec_sub z z_pred;
         Ht = transpose_mat (H_laser_m s);
         S = lidar_S s;
         Si = inverse_mat S;
         PHt = mat_mul 5 (P_m s) Ht;
         K = mat_mul 2 PHt Si;
         x1 = vec_add (x_m s) (mat_vec 2 K z_diff);
         I = identity_mat;
         P1 = mat_mul 5 (mat_sub I (mat_mul 2 K (H_laser_m s))) (P_m s)
     in s\<lparr>x_m := x1, P_m := P1, NIS_laser_m := quad_form 2 z_diff Si\<rparr>)"

section \<open>Radar update\<close>

text \<open>
  The result of a \<^verbatim>\<open>double\<close> operation that may leave the finite numbers. Dividing
  finite \<open>a\<close> by finite \<open>b\<close>: the quotient when \<open>b\<close> is not zero, NaN for \<open>0 / 0\<close>,
  and an infinity with the sign of \<open>a\<close> otherwise (the divisor below is a square
  root, hence a positive zero). \<^verbatim>\<open>x != x\<close> holds of NaN alone.
\<close>

datatype double = Fin real | PInf | MInf | NaN

definition double_div :: "real \<Rightarrow> real \<Rightarrow> double" where
  "double_div a b =
     (if b \<noteq> 0 then Fin (a / b)
      else if a = 0 then NaN
      else if 0 < a then PInf else MInf)"

definition differs_from_itself :: "double \<Rightarrow> bool" where
  "differs_from_itself x = (x = NaN)"

text \<open>The guard \<^verbatim>\<open>if (x != x) { x = 0; }\<close>.\<close>

definition nan_to_zero :: "double \<Rightarrow> double" where
  "nan_to_zero x = (if differs_from_itself x then Fin 0 else x)"

text \<open>
  What is stored into the real matrix \<^verbatim>\<open>Zsig_\<close>. An infinity or a NaN has no
  counterpart among the reals, and \<open>stored\<close> has no equation for them. In exact
  arithmetic none arises (\<open>radar_measurement_finite\<close> below): the range and the bearing
  of finite coordinates are finite, and a range of zero forces a dividend of zero, so
  that the only exceptional quotient is the NaN that the guard replaces. The source
  computes the range from \<^verbatim>\<open>p_x*p_x + p_y*p_y\<close> on doubles, where the squares of small
  coordinates underflow to zero while the dividend is not zero; the quotient is then
  an infinity, which the guard \<^verbatim>\<open>x != x\<close> lets through. That input lies outside the
  functions \<open>Zsig_column\<close> and \<open>radar_Zsig\<close> below.
\<close>

fun stored :: "double \<Rightarrow> real" where
  "stored (Fin a) = a"

text \<open>\<^verbatim>\<open>atan2\<close> of the C library on finite arguments, with \<open>atan2 0 0 = 0\<close>.\<close>

definition atan2 :: "real \<Rightarrow> real \<Rightarrow> real" where
  "atan2 y x =
     (if 0 < x then arctan (y / x)
      else if x < 0 \<and> 0 \<le> y then arctan (y / x) + pi
      else if x < 0 then arctan (y / x) - pi
      else if 0 < y then pi / 2
      else if y < 0 then - (pi / 2)
      else 0)"

text \<open>
  The measurement model applied to one predicted sigma point, with its three NaN
  guards (lines 294 to 315). \<open>X\<close> is a column of \<^verbatim>\<open>Xsig_pred_\<close>.
\<close>

definition radar_measurement :: "vec \<Rightarrow> double \<times> double \<times> double" where
  "radar_measurement X =
    (let p_x = X 0; p_y = X 1; v = X 2; yaw = X 3;
         v_y = cos yaw * v;
         v_x = sin yaw * v;
         rho = Fin (sqrt (p_x * p_x + p_y * p_y));
         phi = Fin (atan2 p_y p_x);
         rho_dot = double_div (p_x * v_y + p_y * v_x) (sqrt (p_x * p_x + p_y * p_y));
         rho1 = nan_to_zero rho;
         phi1 = nan_to_zero phi;
         rho_dot1 = nan_to_zero rho_dot
     in (rho1, phi1, rho_dot1))"

definition Zsig_column :: "vec \<Rightarrow> vec" where
  "Zsig_column X =
    (case radar_measurement X of
       (rho, phi, rho_dot) \<Rightarrow> vec_of_list [stored rho, stored phi, stored rho_dot])"

text \<open>
  The transformed sigma points (lines 291 to 320), their weighted mean \<^verbatim>\<open>z_pred\<close>
  (lines 323 to 327), the innovation covariance \<^verbatim>\<open>S\<close> (lines 330 to 344) and the
  cross correlation \<^verbatim>\<open>Tc\<close> (lines 347 to 364), then \<^verbatim>\<open>UKF::UpdateRadar\<close> as a whole.
\<close>

definition radar_Zsig :: "UKF \<Rightarrow> mat" where
  "radar_Zsig s =
     foldl (\<lambda>M i. set_col M i (Zsig_column (col (Xsig_pred_m s) i)))
       (Zsig_m s) [0..<2 * n_aug_m s + 1]"

definition radar_z_pred :: "UKF \<Rightarrow> mat \<Rightarrow> vec" where
  "radar_z_pred s Zsig =
     foldl (\<lambda>z i. vec_add z (vec_scale (weights_m s i) (col Zsig i)))
       zero_vec [0..<2 * n_aug_m s + 1]"

definition radar_S :: "UKF \<Rightarrow> mat \<Rightarrow> vec \<Rightarrow> mat" where
  "radar_S s Zsig z_pred =
    (let S0 = foldl (\<lambda>S i. mat_add S (outer (vec_scale (weights_m s i) (z_diff_at Zsig z_pred i))
                                             (z_diff_at Zsig z_pred i)))
                zero_mat [0..<2 * n_aug_m s + 1]
     in mat_add S0 (R_radar_m s))"

definition radar_Tc :: "UKF \<Rightarrow> mat \<Rightarrow> vec \<Rightarrow> mat" where
  "radar_Tc s Zsig z_pred =
     foldl (\<lambda>T i. mat_add T (outer (vec_scale (weights_m s i)
                                        (x_diff_at (Xsig_pred_m s) (x_m s) i))
                                     (z_diff_at Zsig z_pred i)))
       zero_mat [0..<2 * n_aug_m s + 1]"

definition UpdateRadar :: "(mat \<Rightarrow> mat) \<Rightarrow> MeasurementPackage \<Rightarrow> UKF \<Rightarrow> UKF" where
  "UpdateRadar inverse_mat measurement_pack s =
    (let Zsig = radar_Zsig s;
         z_pred = radar_z_pred s Zsig;
         S = radar_S s Zsig z_pred;
         Tc = radar_Tc s Zsig z_pred;
         K = mat_mul (n_z_radar_m s) Tc (inverse_mat S);
         z = raw_measurements_m measurement_pack;
         z_diff = radar_innovation z z_pred;
         x1 = vec_add (x_m s) (mat_vec (n_z_radar_m s) K z_diff);
         P1 = mat_sub (P_m s)
                (mat_mul (n_z_radar_m s) (mat_mul (n_z_radar_m s) K S) (transpose_mat K))
     in s\<lparr>Zsig_m := Zsig, x_m := x1, P_m := P1,
           NIS_radar_m := quad_form (n_z_radar_m s) z_diff (inverse_mat S)\<rparr>)"

section \<open>Processing a measurement\<close>

text \<open>
  \<^verbatim>\<open>UKF::ProcessMeasurement\<close>; the line printed to the standard output at
  initialization is left out. \<open>initial_position\<close> is lines 116 to 141: the position
  taken from the first measurement, and the covariance after the guard.
\<close>

definition initial_position :: "MeasurementPackage \<Rightarrow> mat \<Rightarrow> real \<times> real \<times> mat" where
  "initial_position measurement_pack P =
    (if sensor_type_m measurement_pack = RADAR then
       (let rho = raw_measurements_m measurement_pack 0;
            phi = raw_measurements_m measurement_pack 1;
            px = rho * cos phi;
            py = rho * sin phi;
            (px1, P1) = (if \<bar>px\<bar> < 0.0001 then (1, set_coeff P 0 0 1000) else (px, P));
            (py1, P2) = (if \<bar>py\<bar> < 0.0001 then (1, set_coeff P1 1 1 1000) else (py, P1))
        in (px1, py1, P2))
     else if sensor_type_m measurement_pack = LASER then
       (raw_measurements_m measurement_pack 0, raw_measurements_m measurement_pack 1, P)
     else (0, 0, P))"

definition ProcessMeasurement ::
  "(mat \<Rightarrow> mat) \<Rightarrow> (mat \<Rightarrow> mat) \<Rightarrow> MeasurementPackage \<Rightarrow> UKF \<Rightarrow> UKF" where
  "ProcessMeasurement llt inverse_mat measurement_pack s =
    (if \<not> is_initialized_m s then
       (case initial_position measurement_pack (P_m s) of
          (px, py, P1) \<Rightarrow>
            (let x1 = vec_of_list [px, py, 0, 0, 0]
             in s\<lparr>P_m := P1, x_m := x1, x_aug := augment 5 x1,
                   previous_timestamp_m := timestamp_m measurement_pack,
                   is_initialized_m := True\<rparr>))
     else
       (let dt = real_of_int (timestamp_m measurement_pack - previous_timestamp_m s) / 1000000;
            s1 = s\<lparr>previous_timestamp_m := timestamp_m measurement_pack\<rparr>;
            s2 = Prediction llt dt s1
        in if sensor_type_m measurement_pack = RADAR
           then UpdateRadar inverse_mat measurement_pack s2
           else UpdateLidar inverse_mat measurement_pack s2))"

section \<open>Concrete objects for the examples\<close>

text \<open>A memory of zeros, and the filter constructed in it.\<close>

definition zero_memory :: UKF where
  "zero_memory =
    \<lparr>is_initialized_m = False, previous_timestamp_m = 0,
     x_m = zero_vec, x_aug = zero_vec, P_m = zero_mat, P_aug = zero_mat, Q_m = zero_mat,
     Xsig_m = zero_mat, Xsig_pred_m = zero_mat, Zsig_m = zero_mat, weights_m = zero_vec,
     H_laser_m = zero_mat, R_laser_m = zero_mat, R_radar_m = zero_mat,
     std_a_m = 0, std_yawdd_m = 0, std_laspx_m = 0, std_laspy_m = 0,
     std_radr_m = 0, std_radphi_m = 0, std_radrd_m = 0,
     n_x_m = 0, n_aug_m = 0, n_z_radar_m = 0, lambda_m = 0,
     NIS_radar_m = 0, NIS_laser_m = 0\<rparr>"

definition lidar_at :: "real \<Rightarrow> real \<Rightarrow> int \<Rightarrow> MeasurementPackage" where
  "lidar_at px py t =
     \<lparr>timestamp_m = t, sensor_type_m = LASER, raw_measurements_m = vec_of_list [px, py]\<rparr>"

definition radar_at :: "real \<Rightarrow> real \<Rightarrow> real \<Rightarrow> int \<Rightarrow> MeasurementPackage" where
  "radar_at rho phi rho_dot t =
     \<lparr>timestamp_m = t, sensor_type_m = RADAR,
      raw_measurements_m = vec_of_list [rho, phi, rho_dot]\<rparr>"

text \<open>The inverse of a diagonal matrix, for the same purpose as \<open>llt_diagonal\<close>.\<close>

definition inverse_diagonal :: "mat \<Rightarrow> mat" where
  "inverse_diagonal M = (\<lambda>i j. if i = j then 1 / M i i else 0)"

text \<open>
  The filter after construction and a first lidar measurement of the position (1, 1)
  at time 0, and the same filter with a covariance of zeros.
\<close>

definition tracking_example :: UKF where
  "tracking_example =
     ProcessMeasurement llt_diagonal inverse_diagonal (lidar_at 1 1 0) (UKF_ctor zero_memory)"

definition degenerate_example :: UKF where
  "degenerate_example = tracking_example\<lparr>P_m := zero_mat\<rparr>"

text \<open>
  The filter after construction and a first lidar measurement of the position (1, 1)
  with the time stamp 1477010443000000, in microseconds.
\<close>

definition late_example :: UKF where
  "late_example =
     ProcessMeasurement llt_diagonal inverse_diagonal (lidar_at 1 1 1477010443000000)
       (UKF_ctor zero_memory)"

text \<open>
  The members that the constructor fixes and no operation writes afterwards: the sizes,
  \<open>\<lambda>\<close> and the weights.
\<close>

definition constructed :: "UKF \<Rightarrow> bool" where
  "constructed s =
     (n_x_m s = 5 \<and> n_aug_m s = 7 \<and> lambda_m s = - 4 \<and>
      map (weights_m s) [0..<15] = - (4 / 3) # replicate 14 (1 / 6))"

text \<open>The tracking filter of above with the identity as covariance.\<close>

definition unit_example :: UKF where
  "unit_example = tracking_example\<lparr>P_m := identity_mat\<rparr>"

section \<open>The constructor\<close>

lemma UKF_ctor_sizes:
  "n_x_m (UKF_ctor mem) = 5" "n_aug_m (UKF_ctor mem) = 7" "n_z_radar_m (UKF_ctor mem) = 3"
  "lambda_m (UKF_ctor mem) = - 4"
  by (simp_all add: UKF_ctor_def Let_def)

lemma UKF_ctor_weights:
  "weights_m (UKF_ctor mem) =
     (segment_fill 1 14 (1 / 6) (weights_m mem))(0 := - (4 / 3))"
  by (simp add: UKF_ctor_def Let_def)

lemma UKF_ctor_uninitialized: "\<not> is_initialized_m (UKF_ctor mem)"
  by (simp add: UKF_ctor_def Let_def)

lemma UKF_ctor_P:
  "P_m (UKF_ctor mem) =
     mat_of_rows [[1, 0, 0, 0, 0], [0, 1, 0, 0, 0], [0, 0, 1000, 0, 0],
                  [0, 0, 0, 100, 0], [0, 0, 0, 0, 1]]"
  by (simp add: UKF_ctor_def Let_def)

lemma constructed_weights:
  assumes "constructed s"
  shows "weights_m s 0 = - (4 / 3)" and "1 \<le> i \<Longrightarrow> i < 15 \<Longrightarrow> weights_m s i = 1 / 6"
proof -
  have list: "map (weights_m s) [0..<15] = - (4 / 3) # replicate 14 (1 / 6)"
    using assms by (simp add: constructed_def)
  have nth: "weights_m s k = (- (4 / 3) # replicate 14 (1 / 6)) ! k" if "k < 15" for k
  proof -
    have "weights_m s k = map (weights_m s) [0..<15] ! k"
      using that by simp
    then show ?thesis
      by (simp only: list)
  qed
  show "weights_m s 0 = - (4 / 3)"
    using nth [of 0] by simp
  show "weights_m s i = 1 / 6" if "1 \<le> i" "i < 15"
    using nth [of i] that by (simp add: nth_Cons')
qed

lemma constructed_UKF_ctor: "constructed (UKF_ctor mem)"
  unfolding constructed_def UKF_ctor_sizes UKF_ctor_weights
  by (simp add: segment_fill_def upt_rec eval_nat_numeral)

text \<open>
  C6. The weight vector the constructor builds has the 15 entries of the sigma points:
  entry 0 is \<open>\<lambda> / (\<lambda> + n_aug)\<close>, every other entry \<open>1 / (2 (\<lambda> + n_aug))\<close>, with
  \<open>n_aug = 7\<close> and \<open>\<lambda> = 3 - n_aug\<close>; that is \<open>- 4 / 3\<close> followed by fourteen times
  \<open>1 / 6\<close>, and the entries sum to exactly 1 (over the reals).
\<close>

theorem weights_sum_to_one:
  fixes mem :: UKF
  defines "c \<equiv> UKF_ctor mem"
  shows "n_aug_m c = 7 \<and> lambda_m c = 3 - real (n_aug_m c) \<and> 2 * n_aug_m c + 1 = 15 \<and>
         map (weights_m c) [0..<15] =
           lambda_m c / (lambda_m c + real (n_aug_m c))
             # replicate 14 (1 / (2 * (lambda_m c + real (n_aug_m c)))) \<and>
         map (weights_m c) [0..<15] = - (4 / 3) # replicate 14 (1 / 6) \<and>
         (\<Sum>i<15. weights_m c i) = 1"
  unfolding c_def UKF_ctor_sizes UKF_ctor_weights
  by (simp add: segment_fill_def upt_rec eval_nat_numeral)

section \<open>Initialization\<close>

lemma ProcessMeasurement_first:
  "\<not> is_initialized_m s \<Longrightarrow>
   ProcessMeasurement llt inverse_mat m s =
     (case initial_position m (P_m s) of
        (px, py, P1) \<Rightarrow>
          s\<lparr>P_m := P1, x_m := vec_of_list [px, py, 0, 0, 0],
            x_aug := augment 5 (vec_of_list [px, py, 0, 0, 0]),
            previous_timestamp_m := timestamp_m m, is_initialized_m := True\<rparr>)"
  by (simp add: ProcessMeasurement_def Let_def)

text \<open>
  C3, amended. On the first measurement the guard is applied to a radar measurement only:
  each position component computed from range and bearing whose magnitude is below
  \<open>10\<^sup>-\<^sup>4\<close> is replaced by 1 and the matching diagonal entry of \<open>P\<close> (\<open>P(0,0)\<close> for x,
  \<open>P(1,1)\<close> for y) is set to 1000, every other component is stored as computed with its
  entry of \<open>P\<close> kept. A first lidar measurement stores its raw position as it is and
  leaves \<open>P\<close> unchanged.
\<close>

theorem first_measurement_guard:
  fixes s :: UKF and m :: MeasurementPackage and llt inverse_mat :: "mat \<Rightarrow> mat"
  assumes fresh: "\<not> is_initialized_m s"
  defines "s' \<equiv> ProcessMeasurement llt inverse_mat m s"
      and "px \<equiv> raw_measurements_m m 0 * cos (raw_measurements_m m 1)"
      and "py \<equiv> raw_measurements_m m 0 * sin (raw_measurements_m m 1)"
  shows "(sensor_type_m m = RADAR \<and> \<bar>px\<bar> < 0.0001 \<longrightarrow> x_m s' 0 = 1 \<and> P_m s' 0 0 = 1000) \<and>
         (sensor_type_m m = RADAR \<and> \<not> \<bar>px\<bar> < 0.0001 \<longrightarrow> x_m s' 0 = px \<and> P_m s' 0 0 = P_m s 0 0) \<and>
         (sensor_type_m m = RADAR \<and> \<bar>py\<bar> < 0.0001 \<longrightarrow> x_m s' 1 = 1 \<and> P_m s' 1 1 = 1000) \<and>
         (sensor_type_m m = RADAR \<and> \<not> \<bar>py\<bar> < 0.0001 \<longrightarrow> x_m s' 1 = py \<and> P_m s' 1 1 = P_m s 1 1) \<and>
         (sensor_type_m m = LASER \<longrightarrow>
            x_m s' 0 = raw_measurements_m m 0 \<and> x_m s' 1 = raw_measurements_m m 1 \<and>
            P_m s' = P_m s)"
  unfolding s'_def px_def py_def
  by (simp add: ProcessMeasurement_first [OF fresh] initial_position_def Let_def
        vec_of_list_def set_coeff_def)

theorem first_measurement_guard_witness:
  "\<not> is_initialized_m (UKF_ctor zero_memory) \<and>
   sensor_type_m (radar_at 0 0 0 0) = RADAR \<and>
   \<bar>raw_measurements_m (radar_at 0 0 0 0) 0 * cos (raw_measurements_m (radar_at 0 0 0 0) 1)\<bar> < 0.0001 \<and>
   x_m (ProcessMeasurement llt_diagonal inverse_diagonal (radar_at 0 0 0 0) (UKF_ctor zero_memory)) 0 = 1 \<and>
   P_m (ProcessMeasurement llt_diagonal inverse_diagonal (radar_at 0 0 0 0) (UKF_ctor zero_memory)) 0 0 = 1000 \<and>
   sensor_type_m (lidar_at 3 4 0) = LASER \<and>
   x_m (ProcessMeasurement llt_diagonal inverse_diagonal (lidar_at 3 4 0) (UKF_ctor zero_memory)) 0 = 3"
proof -
  have fresh: "\<not> is_initialized_m (UKF_ctor zero_memory)"
    by (rule UKF_ctor_uninitialized)
  have radar: "sensor_type_m (radar_at 0 0 0 0) = RADAR"
    and lidar: "sensor_type_m (lidar_at 3 4 0) = LASER"
    by (simp_all add: radar_at_def lidar_at_def)
  have near: "\<bar>raw_measurements_m (radar_at 0 0 0 0) 0 * cos (raw_measurements_m (radar_at 0 0 0 0) 1)\<bar> < 0.0001"
    by (simp add: radar_at_def vec_of_list_def)
  have raw: "raw_measurements_m (lidar_at 3 4 0) 0 = 3"
    by (simp add: lidar_at_def vec_of_list_def)
  show ?thesis
    using first_measurement_guard [OF fresh, of "radar_at 0 0 0 0" llt_diagonal inverse_diagonal]
      first_measurement_guard [OF fresh, of "lidar_at 3 4 0" llt_diagonal inverse_diagonal]
      fresh radar lidar near raw
    by simp
qed

text \<open>
  A first lidar measurement at the origin: the position stays 0 and \<open>P(0,0)\<close> stays 1.
\<close>

theorem first_lidar_measurement_counterexample:
  "\<bar>raw_measurements_m (lidar_at 0 0 0) 0\<bar> < 0.0001 \<and>
   x_m (ProcessMeasurement llt_diagonal inverse_diagonal (lidar_at 0 0 0) (UKF_ctor zero_memory)) 0 = 0 \<and>
   x_m (ProcessMeasurement llt_diagonal inverse_diagonal (lidar_at 0 0 0) (UKF_ctor zero_memory)) 0 \<noteq> 1 \<and>
   P_m (ProcessMeasurement llt_diagonal inverse_diagonal (lidar_at 0 0 0) (UKF_ctor zero_memory)) 0 0 = 1 \<and>
   P_m (ProcessMeasurement llt_diagonal inverse_diagonal (lidar_at 0 0 0) (UKF_ctor zero_memory)) 0 0 \<noteq> 1000"
  by (simp add: ProcessMeasurement_first [OF UKF_ctor_uninitialized] initial_position_def
        lidar_at_def vec_of_list_def UKF_ctor_P mat_of_rows_def)

lemma tracking_example_fields:
  "is_initialized_m tracking_example"
  "previous_timestamp_m tracking_example = 0"
  "n_x_m tracking_example = 5" "n_aug_m tracking_example = 7"
  "lambda_m tracking_example = - 4"
  "x_m tracking_example = vec_of_list [1, 1, 0, 0, 0]"
  "P_m tracking_example = P_m (UKF_ctor zero_memory)"
  "Q_m tracking_example = Q_m (UKF_ctor zero_memory)"
  "P_aug tracking_example = P_aug (UKF_ctor zero_memory)"
  "weights_m tracking_example = weights_m (UKF_ctor zero_memory)"
  by (simp_all add: tracking_example_def ProcessMeasurement_first [OF UKF_ctor_uninitialized]
        initial_position_def lidar_at_def vec_of_list_def UKF_ctor_sizes)

lemma constructed_tracking_example: "constructed tracking_example"
  using constructed_UKF_ctor [of zero_memory]
  by (simp add: constructed_def tracking_example_fields)

lemma constructed_unit_example: "constructed unit_example"
  using constructed_tracking_example
  by (simp add: constructed_def unit_example_def)

section \<open>What the operations leave alone\<close>

lemma Prediction_frame:
  "is_initialized_m (Prediction llt dt s) = is_initialized_m s"
  "previous_timestamp_m (Prediction llt dt s) = previous_timestamp_m s"
  "weights_m (Prediction llt dt s) = weights_m s"
  "Q_m (Prediction llt dt s) = Q_m s"
  "n_aug_m (Prediction llt dt s) = n_aug_m s"
  by (simp_all add: Prediction_def Let_def)

lemma UpdateLidar_frame:
  "previous_timestamp_m (UpdateLidar inverse_mat m s) = previous_timestamp_m s"
  "NIS_radar_m (UpdateLidar inverse_mat m s) = NIS_radar_m s"
  by (simp_all add: UpdateLidar_def Let_def)

lemma UpdateRadar_frame:
  "previous_timestamp_m (UpdateRadar inverse_mat m s) = previous_timestamp_m s"
  "NIS_laser_m (UpdateRadar inverse_mat m s) = NIS_laser_m s"
  by (simp_all add: UpdateRadar_def Let_def)


section \<open>Angle residuals\<close>

lemma while_above_pi_le: "while_above_pi d \<le> pi"
proof (induction d rule: while_above_pi.induct)
  case (1 d)
  then show ?case
    by (cases "pi < d") (simp_all add: while_above_pi.simps [of d])
qed

lemma while_above_pi_id: "d \<le> pi \<Longrightarrow> while_above_pi d = d"
  by (simp add: while_above_pi.simps [of d])

lemma while_below_minus_pi_ge: "- pi \<le> while_below_minus_pi d"
proof (induction d rule: while_below_minus_pi.induct)
  case (1 d)
  then show ?case
    by (cases "d < - pi") (simp_all add: while_below_minus_pi.simps [of d])
qed

lemma while_below_minus_pi_le: "d \<le> pi \<Longrightarrow> while_below_minus_pi d \<le> pi"
proof (induction d rule: while_below_minus_pi.induct)
  case (1 d)
  show ?case
  proof (cases "d < - pi")
    case True
    then have "d + 2 * pi \<le> pi" by simp
    with 1 True show ?thesis by (simp add: while_below_minus_pi.simps [of d])
  next
    case False
    with 1 show ?thesis by (simp add: while_below_minus_pi.simps [of d])
  qed
qed

lemma while_below_minus_pi_id: "- pi \<le> d \<Longrightarrow> while_below_minus_pi d = d"
  by (simp add: while_below_minus_pi.simps [of d])

lemma normalize_angle_range: "- pi \<le> normalize_angle d" "normalize_angle d \<le> pi"
  by (simp_all add: normalize_angle_def while_below_minus_pi_ge
        while_below_minus_pi_le while_above_pi_le)

lemma normalize_angle_id: "- pi \<le> d \<Longrightarrow> d \<le> pi \<Longrightarrow> normalize_angle d = d"
  by (simp add: normalize_angle_def while_above_pi_id while_below_minus_pi_id)

lemma while_above_pi_turns: "\<exists>k::int. while_above_pi d = d + 2 * pi * real_of_int k"
proof (induction d rule: while_above_pi.induct)
  case (1 d)
  show ?case
  proof (cases "pi < d")
    case True
    with 1 obtain k :: int where "while_above_pi (d - 2 * pi) = d - 2 * pi + 2 * pi * real_of_int k"
      by blast
    with True have "while_above_pi d = d + 2 * pi * real_of_int (k - 1)"
      by (simp add: while_above_pi.simps [of d] algebra_simps)
    then show ?thesis ..
  next
    case False
    then have "while_above_pi d = d + 2 * pi * real_of_int 0"
      by (simp add: while_above_pi.simps [of d])
    then show ?thesis ..
  qed
qed

lemma while_below_minus_pi_turns:
  "\<exists>k::int. while_below_minus_pi d = d + 2 * pi * real_of_int k"
proof (induction d rule: while_below_minus_pi.induct)
  case (1 d)
  show ?case
  proof (cases "d < - pi")
    case True
    with 1 obtain k :: int
      where "while_below_minus_pi (d + 2 * pi) = d + 2 * pi + 2 * pi * real_of_int k"
      by blast
    with True have "while_below_minus_pi d = d + 2 * pi * real_of_int (k + 1)"
      by (simp add: while_below_minus_pi.simps [of d] algebra_simps)
    then show ?thesis ..
  next
    case False
    then have "while_below_minus_pi d = d + 2 * pi * real_of_int 0"
      by (simp add: while_below_minus_pi.simps [of d])
    then show ?thesis ..
  qed
qed

lemma normalize_angle_turns: "\<exists>k::int. normalize_angle d = d + 2 * pi * real_of_int k"
proof -
  obtain k :: int where k: "while_above_pi d = d + 2 * pi * real_of_int k"
    using while_above_pi_turns by blast
  obtain l :: int
    where "while_below_minus_pi (while_above_pi d) = while_above_pi d + 2 * pi * real_of_int l"
    using while_below_minus_pi_turns by blast
  with k have "normalize_angle d = d + 2 * pi * real_of_int (k + l)"
    by (simp add: normalize_angle_def algebra_simps)
  then show ?thesis ..
qed

section \<open>Loops over the sigma points\<close>

lemma foldl_set_col:
  "foldl (\<lambda>M i. set_col M i (f i)) M0 [0..<n] = (\<lambda>r c. if c < n then f c r else M0 r c)"
proof (induction n)
  case 0
  show ?case by simp
next
  case (Suc n)
  have "foldl (\<lambda>M i. set_col M i (f i)) M0 [0..<Suc n] =
          set_col (foldl (\<lambda>M i. set_col M i (f i)) M0 [0..<n]) n (f n)"
    by simp
  also have "\<dots> = set_col (\<lambda>r c. if c < n then f c r else M0 r c) n (f n)"
    by (simp only: Suc)
  also have "\<dots> = (\<lambda>r c. if c < Suc n then f c r else M0 r c)"
    by (auto simp add: set_col_def fun_eq_iff less_Suc_eq)
  finally show ?case .
qed

lemma foldl_vec_add:
  "foldl (\<lambda>x i. vec_add x (f i)) x0 [0..<n] = (\<lambda>r. x0 r + (\<Sum>i<n. f i r))"
proof (induction n)
  case 0
  show ?case by simp
next
  case (Suc n)
  have "foldl (\<lambda>x i. vec_add x (f i)) x0 [0..<Suc n] =
          vec_add (foldl (\<lambda>x i. vec_add x (f i)) x0 [0..<n]) (f n)"
    by simp
  also have "\<dots> = vec_add (\<lambda>r. x0 r + (\<Sum>i<n. f i r)) (f n)"
    by (simp only: Suc)
  also have "\<dots> = (\<lambda>r. x0 r + (\<Sum>i<Suc n. f i r))"
    by (simp add: vec_add_def fun_eq_iff add.assoc)
  finally show ?case .
qed

lemma foldl_mat_add:
  "foldl (\<lambda>A i. mat_add A (f i)) A0 [0..<n] = (\<lambda>r c. A0 r c + (\<Sum>i<n. f i r c))"
proof (induction n)
  case 0
  show ?case by simp
next
  case (Suc n)
  have "foldl (\<lambda>A i. mat_add A (f i)) A0 [0..<Suc n] =
          mat_add (foldl (\<lambda>A i. mat_add A (f i)) A0 [0..<n]) (f n)"
    by simp
  also have "\<dots> = mat_add (\<lambda>r c. A0 r c + (\<Sum>i<n. f i r c)) (f n)"
    by (simp only: Suc)
  also have "\<dots> = (\<lambda>r c. A0 r c + (\<Sum>i<Suc n. f i r c))"
    by (simp add: mat_add_def fun_eq_iff add.assoc)
  finally show ?case .
qed

section \<open>Where the residuals are accumulated\<close>

lemma Prediction_x_loop:
  "x_m (Prediction llt delta_t s) =
     foldl (\<lambda>x i. vec_add x
              (vec_scale (weights_m s i) (col (Xsig_pred_m (Prediction llt delta_t s)) i)))
       zero_vec [0..<2 * n_aug_m s + 1]"
  by (simp add: Prediction_def Let_def)

lemma Prediction_x:
  "x_m (Prediction llt delta_t s) r =
     (\<Sum>i<2 * n_aug_m s + 1. weights_m s i * Xsig_pred_m (Prediction llt delta_t s) r i)"
  by (subst Prediction_x_loop) (simp only: foldl_vec_add zero_vec_def vec_scale_def col_def add_0)

lemma Prediction_P_loop:
  "P_m (Prediction llt delta_t s) =
     foldl (\<lambda>P i. mat_add P
              (outer (vec_scale (weights_m s i)
                        (x_diff_at (Xsig_pred_m (Prediction llt delta_t s))
                           (x_m (Prediction llt delta_t s)) i))
                 (x_diff_at (Xsig_pred_m (Prediction llt delta_t s))
                    (x_m (Prediction llt delta_t s)) i)))
       zero_mat [0..<2 * n_aug_m s + 1]"
  by (simp add: Prediction_def Let_def)

lemma Prediction_P:
  "P_m (Prediction llt delta_t s) r c =
     (\<Sum>i<2 * n_aug_m s + 1.
        weights_m s i
          * x_diff_at (Xsig_pred_m (Prediction llt delta_t s)) (x_m (Prediction llt delta_t s)) i r
          * x_diff_at (Xsig_pred_m (Prediction llt delta_t s)) (x_m (Prediction llt delta_t s)) i c)"
  by (subst Prediction_P_loop)
    (simp only: foldl_mat_add zero_mat_def vec_scale_def outer_def add_0)

lemma radar_z_pred_coeff:
  "radar_z_pred s Zsig r = (\<Sum>i<2 * n_aug_m s + 1. weights_m s i * Zsig r i)"
  by (simp only: radar_z_pred_def foldl_vec_add zero_vec_def vec_scale_def col_def add_0)

lemma radar_S_coeff:
  "radar_S s Zsig z_pred r c =
     (\<Sum>i<2 * n_aug_m s + 1.
        weights_m s i * z_diff_at Zsig z_pred i r * z_diff_at Zsig z_pred i c)
     + R_radar_m s r c"
  by (simp only: radar_S_def Let_def foldl_mat_add)
    (simp add: mat_add_def zero_mat_def vec_scale_def outer_def)

lemma radar_Tc_coeff:
  "radar_Tc s Zsig z_pred r c =
     (\<Sum>i<2 * n_aug_m s + 1.
        weights_m s i * x_diff_at (Xsig_pred_m s) (x_m s) i r * z_diff_at Zsig z_pred i c)"
  by (simp only: radar_Tc_def foldl_mat_add zero_mat_def vec_scale_def outer_def add_0)

lemma UpdateRadar_x:
  "x_m (UpdateRadar inverse_mat m s) =
     vec_add (x_m s)
       (mat_vec (n_z_radar_m s)
          (mat_mul (n_z_radar_m s) (radar_Tc s (radar_Zsig s) (radar_z_pred s (radar_Zsig s)))
             (inverse_mat (radar_S s (radar_Zsig s) (radar_z_pred s (radar_Zsig s)))))
          (radar_innovation (raw_measurements_m m) (radar_z_pred s (radar_Zsig s))))"
  by (simp add: UpdateRadar_def Let_def)

text \<open>
  C5, amended. At every place where a heading or bearing residual enters a weighted sum
  (the state residual of the predicted covariance and of the cross correlation, the
  measurement residual of the innovation covariance and of the cross correlation, and
  the final radar innovation) the residual has been normalized into the closed interval
  from \<open>- \<pi>\<close> to \<open>\<pi>\<close>, both ends included, and differs from the raw difference by a
  whole number of turns. The last four equations are the four places: the predicted
  covariance, the innovation covariance, the cross correlation and the corrected mean are
  made of these residuals and of nothing else angular.
\<close>

theorem residual_angles_in_closed_interval:
  fixes s :: UKF and m :: MeasurementPackage and llt inverse_mat :: "mat \<Rightarrow> mat"
    and Xsig_pred Zsig :: mat and x z z_pred :: vec and delta_t :: real
  defines "p \<equiv> Prediction llt delta_t s"
      and "Z \<equiv> radar_Zsig s"
  defines "zp \<equiv> radar_z_pred s Z"
  shows "- pi \<le> x_diff_at Xsig_pred x i 3 \<and> x_diff_at Xsig_pred x i 3 \<le> pi \<and>
         - pi \<le> z_diff_at Zsig z_pred i 1 \<and> z_diff_at Zsig z_pred i 1 \<le> pi \<and>
         - pi \<le> radar_innovation z z_pred 1 \<and> radar_innovation z z_pred 1 \<le> pi \<and>
         (\<exists>k::int. x_diff_at Xsig_pred x i 3 = Xsig_pred 3 i - x 3 + 2 * pi * real_of_int k) \<and>
         (\<exists>k::int. z_diff_at Zsig z_pred i 1 = Zsig 1 i - z_pred 1 + 2 * pi * real_of_int k) \<and>
         (\<exists>k::int. radar_innovation z z_pred 1 = z 1 - z_pred 1 + 2 * pi * real_of_int k) \<and>
         P_m p r c =
           (\<Sum>i<2 * n_aug_m s + 1.
              weights_m s i * x_diff_at (Xsig_pred_m p) (x_m p) i r
                * x_diff_at (Xsig_pred_m p) (x_m p) i c) \<and>
         radar_S s Z zp r c =
           (\<Sum>i<2 * n_aug_m s + 1. weights_m s i * z_diff_at Z zp i r * z_diff_at Z zp i c)
           + R_radar_m s r c \<and>
         radar_Tc s Z zp r c =
           (\<Sum>i<2 * n_aug_m s + 1.
              weights_m s i * x_diff_at (Xsig_pred_m s) (x_m s) i r * z_diff_at Z zp i c) \<and>
         x_m (UpdateRadar inverse_mat m s) =
           vec_add (x_m s)
             (mat_vec (n_z_radar_m s)
                (mat_mul (n_z_radar_m s) (radar_Tc s Z zp) (inverse_mat (radar_S s Z zp)))
                (radar_innovation (raw_measurements_m m) zp))"
proof -
  have sites: "P_m p r c =
      (\<Sum>i<2 * n_aug_m s + 1.
         weights_m s i * x_diff_at (Xsig_pred_m p) (x_m p) i r
           * x_diff_at (Xsig_pred_m p) (x_m p) i c)"
    "x_m (UpdateRadar inverse_mat m s) =
       vec_add (x_m s)
         (mat_vec (n_z_radar_m s)
            (mat_mul (n_z_radar_m s) (radar_Tc s Z zp) (inverse_mat (radar_S s Z zp)))
            (radar_innovation (raw_measurements_m m) zp))"
    unfolding p_def Z_def zp_def by (rule Prediction_P, rule UpdateRadar_x)
  have range: "- pi \<le> x_diff_at Xsig_pred x i 3 \<and> x_diff_at Xsig_pred x i 3 \<le> pi \<and>
      - pi \<le> z_diff_at Zsig z_pred i 1 \<and> z_diff_at Zsig z_pred i 1 \<le> pi \<and>
      - pi \<le> radar_innovation z z_pred 1 \<and> radar_innovation z z_pred 1 \<le> pi"
    by (simp add: x_diff_at_def z_diff_at_def radar_innovation_def normalize_coeff_def
          normalize_angle_range)
  have turns: "\<exists>k::int. x_diff_at Xsig_pred x i 3 = Xsig_pred 3 i - x 3 + 2 * pi * real_of_int k"
    "\<exists>k::int. z_diff_at Zsig z_pred i 1 = Zsig 1 i - z_pred 1 + 2 * pi * real_of_int k"
    "\<exists>k::int. radar_innovation z z_pred 1 = z 1 - z_pred 1 + 2 * pi * real_of_int k"
    by (simp_all add: x_diff_at_def z_diff_at_def radar_innovation_def normalize_coeff_def
          normalize_angle_turns vec_sub_def col_def)
  from range turns sites radar_S_coeff [of s Z zp r c] radar_Tc_coeff [of s Z zp r c]
  show ?thesis
    by blast
qed

text \<open>
  A residual of exactly \<open>- \<pi>\<close> passes both loops untouched, so the lower end of the
  interval is attained: here the predicted heading is 0 and the mean heading \<open>\<pi>\<close>.
\<close>

theorem residual_minus_pi_counterexample:
  "\<not> (- pi < x_diff_at zero_mat (vec_of_list [0, 0, 0, pi, 0]) 0 3)"
  by (simp add: x_diff_at_def normalize_coeff_def vec_sub_def col_def zero_mat_def
        vec_of_list_def normalize_angle_id)

section \<open>The process model\<close>

lemma Prediction_Xsig_pred_loop:
  "Xsig_pred_m (Prediction llt delta_t s) =
     foldl (\<lambda>M i. set_col M i
              (predict_sigma_point delta_t (col (Xsig_m (Prediction llt delta_t s)) i)))
       (Xsig_pred_m s) [0..<2 * n_aug_m s + 1]"
  by (simp add: Prediction_def Let_def)

lemma Prediction_Xsig_pred:
  "Xsig_pred_m (Prediction llt delta_t s) =
     (\<lambda>r c. if c < 2 * n_aug_m s + 1
            then predict_sigma_point delta_t (col (Xsig_m (Prediction llt delta_t s)) c) r
            else Xsig_pred_m s r c)"
  by (subst Prediction_Xsig_pred_loop) (simp only: foldl_set_col)

text \<open>
  C8. For every sigma point and every time step the motion part of the process model
  takes the curved path \<open>p\<^sub>x + (v / \<omega>) (sin (\<psi> + \<omega> \<Delta>t) - sin \<psi>)\<close>,
  \<open>p\<^sub>y + (v / \<omega>) (cos \<psi> - cos (\<psi> + \<omega> \<Delta>t))\<close> exactly when the magnitude of the
  heading rate \<open>\<omega>\<close> exceeds 0.001, and the straight line \<open>p\<^sub>x + v \<Delta>t cos \<psi>\<close>,
  \<open>p\<^sub>y + v \<Delta>t sin \<psi>\<close> otherwise; the speed and the heading rate are carried over and
  the heading becomes \<open>\<psi> + \<omega> \<Delta>t\<close>. The noise is injected into this result, and
  \<^verbatim>\<open>Prediction\<close> stores the outcome for each of its sigma points.
\<close>

theorem ctrv_process_model:
  fixes X :: vec and delta_t :: real
  defines "p_x \<equiv> X 0" and "p_y \<equiv> X 1" and "v \<equiv> X 2" and "yaw \<equiv> X 3" and "yawd \<equiv> X 4"
  shows "(\<bar>yawd\<bar> > 0.001 \<longrightarrow>
            ctrv_motion delta_t X 0 = p_x + v / yawd * (sin (yaw + yawd * delta_t) - sin yaw) \<and>
            ctrv_motion delta_t X 1 = p_y + v / yawd * (cos yaw - cos (yaw + yawd * delta_t))) \<and>
         (\<not> \<bar>yawd\<bar> > 0.001 \<longrightarrow>
            ctrv_motion delta_t X 0 = p_x + v * delta_t * cos yaw \<and>
            ctrv_motion delta_t X 1 = p_y + v * delta_t * sin yaw) \<and>
         ctrv_motion delta_t X 2 = v \<and>
         ctrv_motion delta_t X 3 = yaw + yawd * delta_t \<and>
         ctrv_motion delta_t X 4 = yawd \<and>
         predict_sigma_point delta_t X = add_noise delta_t X (ctrv_motion delta_t X) \<and>
         (i < 2 * n_aug_m s + 1 \<longrightarrow>
            col (Xsig_pred_m (Prediction llt delta_t s)) i =
              predict_sigma_point delta_t (col (Xsig_m (Prediction llt delta_t s)) i))"
  unfolding p_x_def p_y_def v_def yaw_def yawd_def
  by (simp add: ctrv_motion_def Let_def vec_of_list_def predict_sigma_point_def
        Prediction_Xsig_pred col_def)

theorem ctrv_process_model_witness:
  "\<bar>1 / 2 :: real\<bar> > 0.001 \<and>
   ctrv_motion 1 (vec_of_list [0, 0, 2, 0, 1 / 2, 0, 0]) 0 = 4 * sin (1 / 2) \<and>
   \<not> \<bar>0 :: real\<bar> > 0.001 \<and>
   ctrv_motion 1 (vec_of_list [0, 0, 2, 0, 0, 0, 0]) 0 = 2 \<and>
   (3 :: nat) < 2 * n_aug_m tracking_example + 1 \<and>
   col (Xsig_pred_m (Prediction llt_diagonal 1 tracking_example)) 3 =
     predict_sigma_point 1 (col (Xsig_m (Prediction llt_diagonal 1 tracking_example)) 3)"
proof -
  have n: "n_aug_m tracking_example = 7"
    by (simp add: tracking_example_def ProcessMeasurement_def UKF_ctor_def Let_def split_def)
  have curved: "\<bar>1 / 2 :: real\<bar> > 0.001"
    by simp
  have straight: "\<not> \<bar>0 :: real\<bar> > 0.001"
    by simp
  have small: "(3 :: nat) < 2 * n_aug_m tracking_example + 1"
    by (simp add: n)
  show ?thesis
    using ctrv_process_model [of "vec_of_list [0, 0, 2, 0, 1 / 2, 0, 0]" 1 3 tracking_example llt_diagonal]
      ctrv_process_model [of "vec_of_list [0, 0, 2, 0, 0, 0, 0]" 1 3 tracking_example llt_diagonal]
      curved straight small
    by (simp add: vec_of_list_def)
qed

section \<open>The lidar innovation covariance\<close>

lemma lidar_S_coeff:
  "lidar_S s i j =
     (\<Sum>k<5. (\<Sum>l<5. H_laser_m s i l * P_m s l k) * H_laser_m s j k) + R_laser_m s i j"
  by (simp add: lidar_S_def Let_def mat_add_def mat_mul_def transpose_mat_def)

text \<open>
  C1. The claim asks for the innovation covariance \<open>H P H\<^sup>T + R\<close> with
  \<open>R = diag(std_laspx\<^sup>2, std_laspy\<^sup>2)\<close>. The constructor fills \<^verbatim>\<open>R_laser_\<close> with the
  standard deviations themselves, where \<^verbatim>\<open>R_radar_\<close> next to it holds the squares.
  On the constructed filter the entry \<open>S(0,0)\<close> is \<open>1 + 0.0225\<close>, not \<open>1 + 0.0225\<^sup>2\<close>.
\<close>

theorem lidar_noise_not_squared:
  "lidar_S (UKF_ctor mem) 0 0 = P_m (UKF_ctor mem) 0 0 + std_laspx_m (UKF_ctor mem) \<and>
   lidar_S (UKF_ctor mem) 1 1 = P_m (UKF_ctor mem) 1 1 + std_laspy_m (UKF_ctor mem) \<and>
   lidar_S (UKF_ctor mem) 0 0 = 1 + 0.0225 \<and>
   lidar_S (UKF_ctor mem) 0 0 \<noteq> 1 + 0.0225 * 0.0225 \<and>
   R_laser_m (UKF_ctor mem) 0 0 = std_laspx_m (UKF_ctor mem) \<and>
   R_laser_m (UKF_ctor mem) 0 0 \<noteq>
     std_laspx_m (UKF_ctor mem) * std_laspx_m (UKF_ctor mem) \<and>
   R_radar_m (UKF_ctor mem) 0 0 =
     std_radr_m (UKF_ctor mem) * std_radr_m (UKF_ctor mem)"
  unfolding lidar_S_coeff
  by (simp add: UKF_ctor_def Let_def mat_of_rows_def vec_of_list_def eval_nat_numeral)

section \<open>Sigma point generation\<close>

lemma Prediction_P_aug: "P_aug (Prediction llt delta_t s) = augmented_covariance s"
  by (simp add: Prediction_def Let_def augmented_covariance_def)

lemma Prediction_Xsig:
  "Xsig_m (Prediction llt delta_t s) =
     block_sub 0 (n_aug_m s + 1) (n_aug_m s) (n_aug_m s)
       (mat_scale (llt (augmented_covariance s)) (sqrt (lambda_m s + real (n_aug_m s))))
       (block_add 0 1 (n_aug_m s) (n_aug_m s)
          (mat_scale (llt (augmented_covariance s)) (sqrt (lambda_m s + real (n_aug_m s))))
          (colwise_assign (augment 5 (x_m s))))"
  by (simp add: Prediction_def Let_def augmented_covariance_def)

lemma sum_sigma_points:
  fixes f :: "nat \<Rightarrow> real"
  shows "(\<Sum>i<15. f i) = f 0 + (\<Sum>j<7. f (Suc j)) + (\<Sum>j<7. f (j + 8))"
  by (simp add: eval_nat_numeral)

lemma Prediction_Xsig_coeff:
  fixes s :: UKF and llt :: "mat \<Rightarrow> mat"
  assumes "constructed s"
  defines "L \<equiv> llt (augmented_covariance s)"
  shows "Xsig_m (Prediction llt delta_t s) r 0 = augment 5 (x_m s) r"
    and "r < 7 \<Longrightarrow> j < 7 \<Longrightarrow>
         Xsig_m (Prediction llt delta_t s) r (Suc j) = augment 5 (x_m s) r + L r j * sqrt 3"
    and "r < 7 \<Longrightarrow> j < 7 \<Longrightarrow>
         Xsig_m (Prediction llt delta_t s) r (j + 8) = augment 5 (x_m s) r - L r j * sqrt 3"
proof -
  have sizes: "n_aug_m s = 7" "lambda_m s = - 4"
    using assms(1) by (simp_all add: constructed_def)
  show "Xsig_m (Prediction llt delta_t s) r 0 = augment 5 (x_m s) r"
    by (simp add: Prediction_Xsig sizes block_sub_def block_add_def in_block_def
          colwise_assign_def)
  show "Xsig_m (Prediction llt delta_t s) r (Suc j) = augment 5 (x_m s) r + L r j * sqrt 3"
    if "r < 7" "j < 7"
    using that
    by (simp add: Prediction_Xsig sizes block_sub_def block_add_def in_block_def
          colwise_assign_def mat_scale_def L_def)
  show "Xsig_m (Prediction llt delta_t s) r (j + 8) = augment 5 (x_m s) r - L r j * sqrt 3"
    if "r < 7" "j < 7"
    using that
    by (simp add: Prediction_Xsig sizes block_sub_def block_add_def in_block_def
          colwise_assign_def mat_scale_def L_def)
qed

lemma degenerate_example_not_positive_definite:
  "\<not> positive_definite 7 (augmented_covariance degenerate_example)"
proof -
  let ?v = "\<lambda>i::nat. if i = 0 then 1 else 0 :: real"
  have corner: "augmented_covariance degenerate_example 0 0 = 0"
    by (simp add: augmented_covariance_def degenerate_example_def tracking_example_fields
          block_assign_def in_block_def zero_mat_def)
  have "quad_form 7 ?v (augmented_covariance degenerate_example) =
          augmented_covariance degenerate_example 0 0"
    by (simp add: quad_form_def eval_nat_numeral)
  then have flat: "\<not> 0 < quad_form 7 ?v (augmented_covariance degenerate_example)"
    by (simp add: corner)
  have nonzero: "\<exists>i<7. ?v i \<noteq> 0"
    by (intro exI [of _ 0]) simp
  show ?thesis
  proof
    assume "positive_definite 7 (augmented_covariance degenerate_example)"
    then have "(\<exists>i<7. ?v i \<noteq> 0) \<longrightarrow>
        0 < quad_form 7 ?v (augmented_covariance degenerate_example)"
      unfolding positive_definite_def by (rule spec)
    with nonzero have "0 < quad_form 7 ?v (augmented_covariance degenerate_example)"
      by (rule rev_mp)
    with flat show False
      by (rule notE)
  qed
qed

lemma sigma_weighted_mean:
  assumes c: "constructed s" and r: "r < 7"
  shows "(\<Sum>i<15. weights_m s i * Xsig_m (Prediction llt delta_t s) r i) = augment 5 (x_m s) r"
proof -
  let ?L = "llt (augmented_covariance s)"
  let ?X = "Xsig_m (Prediction llt delta_t s)"
  let ?a = "augment 5 (x_m s) r"
  have "(\<Sum>i<15. weights_m s i * ?X r i) =
          weights_m s 0 * ?X r 0 + (\<Sum>j<7. weights_m s (Suc j) * ?X r (Suc j))
            + (\<Sum>j<7. weights_m s (j + 8) * ?X r (j + 8))"
    by (rule sum_sigma_points)
  also have "(\<Sum>j<7. weights_m s (Suc j) * ?X r (Suc j)) =
             (\<Sum>j<7. 1 / 6 * (?a + ?L r j * sqrt 3))"
    by (intro sum.cong refl)
      (simp add: constructed_weights [OF c] Prediction_Xsig_coeff [OF c] r)
  also have "(\<Sum>j<7. weights_m s (j + 8) * ?X r (j + 8)) =
             (\<Sum>j<7. 1 / 6 * (?a - ?L r j * sqrt 3))"
    by (intro sum.cong refl)
      (simp add: constructed_weights [OF c] Prediction_Xsig_coeff [OF c] r)
  also have "weights_m s 0 * ?X r 0 = - (4 / 3) * ?a"
    by (simp add: constructed_weights [OF c] Prediction_Xsig_coeff [OF c])
  also have "- (4 / 3) * ?a + (\<Sum>j<7. 1 / 6 * (?a + ?L r j * sqrt 3))
               + (\<Sum>j<7. 1 / 6 * (?a - ?L r j * sqrt 3)) =
             - (4 / 3) * ?a + (\<Sum>j<7::nat. 1 / 3 * ?a)"
    by (simp add: sum.distrib [symmetric] algebra_simps)
  also have "\<dots> = ?a"
    by simp
  finally show ?thesis .
qed

lemma sigma_weighted_scatter:
  assumes c: "constructed s" and r: "r < 7" and k: "k < 7"
  shows "(\<Sum>i<15. weights_m s i
            * (Xsig_m (Prediction llt delta_t s) r i - augment 5 (x_m s) r)
            * (Xsig_m (Prediction llt delta_t s) k i - augment 5 (x_m s) k)) =
         (\<Sum>j<7. llt (augmented_covariance s) r j * llt (augmented_covariance s) k j)"
proof -
  let ?L = "llt (augmented_covariance s)"
  let ?X = "Xsig_m (Prediction llt delta_t s)"
  let ?a = "augment 5 (x_m s)"
  let ?t = "\<lambda>i. weights_m s i * (?X r i - ?a r) * (?X k i - ?a k)"
  have "(\<Sum>i<15. ?t i) = ?t 0 + (\<Sum>j<7. ?t (Suc j)) + (\<Sum>j<7. ?t (j + 8))"
    by (rule sum_sigma_points)
  also have "?t 0 = 0"
    by (simp add: Prediction_Xsig_coeff [OF c])
  also have "(\<Sum>j<7. ?t (Suc j)) = (\<Sum>j<7. 1 / 2 * (?L r j * ?L k j))"
    by (intro sum.cong refl)
      (simp add: constructed_weights [OF c] Prediction_Xsig_coeff [OF c] r k)
  also have "(\<Sum>j<7. ?t (j + 8)) = (\<Sum>j<7. 1 / 2 * (?L r j * ?L k j))"
    by (intro sum.cong refl)
      (simp add: constructed_weights [OF c] Prediction_Xsig_coeff [OF c] r k)
  also have "0 + (\<Sum>j<7. 1 / 2 * (?L r j * ?L k j)) + (\<Sum>j<7. 1 / 2 * (?L r j * ?L k j)) =
             (\<Sum>j<7. ?L r j * ?L k j)"
    unfolding sum_distrib_left [symmetric] by simp
  finally show ?thesis .
qed

lemma constructed_degenerate_example: "constructed degenerate_example"
  using constructed_tracking_example
  by (simp add: constructed_def degenerate_example_def)

lemma sqrt_noise_variances: "sqrt (3969 / 10000) = 63 / 100" "sqrt (36 / 25) = 6 / 5"
proof -
  have "sqrt (3969 / 10000) = sqrt ((63 / 100) * (63 / 100))"
    by simp
  also have "\<dots> = 63 / 100"
    by (simp only: real_sqrt_abs2)
  finally show "sqrt (3969 / 10000) = 63 / 100" .
  have "sqrt (36 / 25) = sqrt ((6 / 5) * (6 / 5))"
    by simp
  also have "\<dots> = 6 / 5"
    by (simp only: real_sqrt_abs2)
  finally show "sqrt (36 / 25) = 6 / 5" .
qed

text \<open>
  Claim C2, amended. Sigma point generation has no test of positive definiteness and no
  failure path. For every filter as constructed, whatever its state covariance, and
  whatever matrix \<open>L\<close> the factorization hands back for the augmented covariance,
  \<^verbatim>\<open>Prediction\<close> assembles that covariance from \<^verbatim>\<open>P_\<close> and \<^verbatim>\<open>Q_\<close> and writes the 15 sigma
  points from \<open>L\<close>: the first is the augmented mean \<open>a\<close>, and for every \<open>j\<close> below 7 the
  points \<open>j + 1\<close> and \<open>j + 8\<close> are \<open>a\<close> plus and minus \<open>sqrt (lambda + n_aug)\<close> times column
  \<open>j\<close> of \<open>L\<close>. Their weighted mean is \<open>a\<close>, and their weighted scatter about \<open>a\<close> is \<open>L\<close>
  times its transpose, which is the augmented covariance only when the factorization
  has succeeded. The statement is about the sigma points, which are written before any
  loop of \<^verbatim>\<open>Prediction\<close> is entered.
\<close>

theorem sigma_points_from_factor:
  fixes s :: UKF and llt :: "mat \<Rightarrow> mat" and delta_t :: real
  assumes c: "constructed s"
  defines "L \<equiv> llt (augmented_covariance s)"
      and "X \<equiv> Xsig_m (Prediction llt delta_t s)"
      and "a \<equiv> augment 5 (x_m s)"
      and "g \<equiv> sqrt (lambda_m s + real (n_aug_m s))"
  shows "P_aug (Prediction llt delta_t s) = augmented_covariance s \<and>
         X r 0 = a r \<and>
         (r < 7 \<and> j < 7 \<longrightarrow> X r (j + 1) = a r + g * L r j \<and> X r (j + 8) = a r - g * L r j) \<and>
         (r < 7 \<longrightarrow> (\<Sum>i<15. weights_m s i * X r i) = a r) \<and>
         (r < 7 \<and> k < 7 \<longrightarrow>
            (\<Sum>i<15. weights_m s i * (X r i - a r) * (X k i - a k)) = (\<Sum>j<7. L r j * L k j))"
proof -
  have g: "g = sqrt 3"
    using c by (simp add: g_def constructed_def)
  have "X r 0 = a r"
    unfolding X_def a_def by (rule Prediction_Xsig_coeff [OF c])
  moreover have "X r (j + 1) = a r + g * L r j \<and> X r (j + 8) = a r - g * L r j"
    if "r < 7 \<and> j < 7"
    using that Prediction_Xsig_coeff(2,3) [OF c, of r j llt delta_t]
    by (simp add: X_def a_def L_def g mult.commute)
  moreover have "(\<Sum>i<15. weights_m s i * X r i) = a r" if "r < 7"
    unfolding X_def a_def by (rule sigma_weighted_mean [OF c that])
  moreover have "(\<Sum>i<15. weights_m s i * (X r i - a r) * (X k i - a k)) = (\<Sum>j<7. L r j * L k j)"
    if "r < 7 \<and> k < 7"
    using that sigma_weighted_scatter [OF c, of r k llt delta_t]
    by (simp add: X_def a_def L_def)
  moreover have "P_aug (Prediction llt delta_t s) = augmented_covariance s"
    by (rule Prediction_P_aug)
  ultimately show ?thesis
    by blast
qed

theorem sigma_points_from_factor_witness:
  "constructed degenerate_example \<and> (5 :: nat) < 7 \<and> (6 :: nat) < 7 \<and>
   Xsig_m (Prediction llt_diagonal (1 / 10) degenerate_example) 5 (5 + 1) =
     augment 5 (x_m degenerate_example) 5
       + sqrt (lambda_m degenerate_example + real (n_aug_m degenerate_example))
         * llt_diagonal (augmented_covariance degenerate_example) 5 5 \<and>
   (\<Sum>i<15. weights_m degenerate_example i
      * Xsig_m (Prediction llt_diagonal (1 / 10) degenerate_example) 5 i) =
     augment 5 (x_m degenerate_example) 5 \<and>
   (\<Sum>i<15. weights_m degenerate_example i
      * (Xsig_m (Prediction llt_diagonal (1 / 10) degenerate_example) 5 i
           - augment 5 (x_m degenerate_example) 5)
      * (Xsig_m (Prediction llt_diagonal (1 / 10) degenerate_example) 6 i
           - augment 5 (x_m degenerate_example) 6)) =
     (\<Sum>j<7. llt_diagonal (augmented_covariance degenerate_example) 5 j
             * llt_diagonal (augmented_covariance degenerate_example) 6 j)"
proof -
  have c: "constructed degenerate_example"
    by (rule constructed_degenerate_example)
  have five: "(5 :: nat) < 7" and six: "(6 :: nat) < 7"
    by simp_all
  show ?thesis
    using sigma_points_from_factor
        [OF c, where llt = llt_diagonal and delta_t = "1 / 10" and r = 5 and j = 5 and k = 6]
      c five six
    by blast
qed

text \<open>
  Claim C2 as stated fails on the filter whose state covariance is zero. Its augmented
  covariance is not positive definite, and the sigma points are written all the same:
  the first from the mean, the others from whatever matrix the factorization returns.
\<close>

theorem sigma_points_without_check_counterexample:
  "\<not> positive_definite 7 (augmented_covariance degenerate_example) \<and>
   (\<forall>llt. Xsig_m (Prediction llt (1 / 10) degenerate_example) 0 0 = 1 \<and>
          Xsig_m (Prediction llt (1 / 10) degenerate_example) 5 6 =
            sqrt 3 * llt (augmented_covariance degenerate_example) 5 5 \<and>
          Xsig_m (Prediction llt (1 / 10) degenerate_example) 5 13 =
            - (sqrt 3 * llt (augmented_covariance degenerate_example) 5 5))"
proof -
  have c: "constructed degenerate_example"
    by (rule constructed_degenerate_example)
  have mean: "augment 5 (x_m degenerate_example) 0 = 1" "augment 5 (x_m degenerate_example) 5 = 0"
    by (simp_all add: augment_def degenerate_example_def tracking_example_fields vec_of_list_def)
  have centre: "Xsig_m (Prediction llt (1 / 10) degenerate_example) 0 0 = 1" for llt
    by (simp add: Prediction_Xsig_coeff(1) [OF c] mean)
  have plus: "Xsig_m (Prediction llt (1 / 10) degenerate_example) 5 6 =
      sqrt 3 * llt (augmented_covariance degenerate_example) 5 5" for llt
    using Prediction_Xsig_coeff(2) [OF c, of 5 5 llt "1 / 10"]
    by (simp add: mean)
  have minus: "Xsig_m (Prediction llt (1 / 10) degenerate_example) 5 13 =
      - (sqrt 3 * llt (augmented_covariance degenerate_example) 5 5)" for llt
    using Prediction_Xsig_coeff(3) [OF c, of 5 5 llt "1 / 10"]
    by (simp add: mean)
  from degenerate_example_not_positive_definite centre plus minus show ?thesis
    by (intro conjI allI)
qed

section \<open>The radar measurement transform\<close>

lemma zero_range:
  fixes p_x p_y :: real
  assumes "sqrt (p_x * p_x + p_y * p_y) = 0"
  shows "p_x = 0" "p_y = 0"
  using assms by simp_all

lemma radar_measurement_value:
  "radar_measurement X =
     (Fin (sqrt (X 0 * X 0 + X 1 * X 1)),
      Fin (atan2 (X 1) (X 0)),
      Fin (if sqrt (X 0 * X 0 + X 1 * X 1) = 0 then 0
           else (X 0 * (cos (X 3) * X 2) + X 1 * (sin (X 3) * X 2))
                  / sqrt (X 0 * X 0 + X 1 * X 1)))"
proof (cases "sqrt (X 0 * X 0 + X 1 * X 1) = 0")
  case True
  then have "X 0 = 0" "X 1 = 0"
    by (rule zero_range)+
  then show ?thesis
    by (simp add: radar_measurement_def Let_def double_div_def nan_to_zero_def
          differs_from_itself_def)
next
  case False
  then show ?thesis
    by (simp add: radar_measurement_def Let_def double_div_def nan_to_zero_def
          differs_from_itself_def)
qed

lemma radar_measurement_finite:
  "\<exists>rho phi rho_dot. radar_measurement X = (Fin rho, Fin phi, Fin rho_dot)"
  by (simp add: radar_measurement_value)

lemma radar_Zsig_col:
  "i < 2 * n_aug_m s + 1 \<Longrightarrow> col (radar_Zsig s) i = Zsig_column (col (Xsig_pred_m s) i)"
  by (simp only: radar_Zsig_def foldl_set_col) (simp add: col_def)

lemma UpdateRadar_Zsig: "Zsig_m (UpdateRadar inverse_mat m s) = radar_Zsig s"
  by (simp add: UpdateRadar_def Let_def)

lemma radar_measurement_on_axis:
  assumes "0 < e"
  shows "radar_measurement (vec_of_list [e, 0, 1, 0, 0]) = (Fin e, Fin 0, Fin 1)"
proof -
  have root: "sqrt (e * e) = e"
    using assms by (simp only: real_sqrt_abs2 abs_of_pos)
  show ?thesis
    unfolding radar_measurement_value
    using assms by (simp add: vec_of_list_def root atan2_def)
qed

text \<open>
  Claim C7 does not hold of the source on the predicted sigma point with
  \<open>p_x = 10 ^ -170\<close>, \<open>p_y = 0\<close>, \<open>v = 1\<close> and \<open>yaw = 0\<close>. The squared range of that point is
  \<open>10 ^ -340\<close>, below \<open>2 ^ -1075\<close>, half of the least positive \<^verbatim>\<open>double\<close>: the source
  computes \<^verbatim>\<open>p_x*p_x + p_y*p_y\<close> as 0, and the range as 0. The dividend of the range
  rate is \<open>10 ^ -170\<close>, above the least normal \<^verbatim>\<open>double\<close> \<open>2 ^ -1022\<close>, and is not 0. The
  quotient of a positive dividend by 0 is the positive infinity, which is equal to
  itself and which the guard leaves in place. It enters the predicted measurement mean,
  and the residual of the same column, infinity minus infinity, is a NaN that enters
  the innovation covariance. In exact arithmetic the same point has the range
  \<open>10 ^ -170\<close> and the range rate 1, which is the last part of the statement.
\<close>

theorem radar_underflow_gives_infinity:
  fixes X :: vec
  defines "X \<equiv> vec_of_list [1 / 10 ^ 170, 0, 1, 0, 0]"
  shows "X 0 * X 0 + X 1 * X 1 = 1 / 10 ^ 340 \<and>
         (1 :: real) / 10 ^ 340 < 1 / 2 ^ 1075 \<and>
         X 0 * (cos (X 3) * X 2) + X 1 * (sin (X 3) * X 2) = 1 / 10 ^ 170 \<and>
         (1 :: real) / 2 ^ 1022 < 1 / 10 ^ 170 \<and>
         double_div (X 0 * (cos (X 3) * X 2) + X 1 * (sin (X 3) * X 2)) 0 = PInf \<and>
         nan_to_zero PInf = PInf \<and>
         radar_measurement X = (Fin (1 / 10 ^ 170), Fin 0, Fin 1)"
proof -
  have square: "(1 :: real) / 10 ^ 170 * (1 / 10 ^ 170) = 1 / 10 ^ 340"
    by (simp add: power_add [symmetric])
  have below: "(1 :: real) / 10 ^ 340 < 1 / 2 ^ 1075"
    by (simp add: field_simps)
  have above: "(1 :: real) / 2 ^ 1022 < 1 / 10 ^ 170"
    by (simp add: field_simps)
  have positive: "(0 :: real) < 1 / 10 ^ 170"
    by simp
  have coeff: "X 0 = 1 / 10 ^ 170" "X 1 = 0" "X 2 = 1" "X 3 = 0"
    by (simp_all add: X_def vec_of_list_def)
  have model: "radar_measurement X = (Fin (1 / 10 ^ 170), Fin 0, Fin 1)"
    unfolding X_def by (rule radar_measurement_on_axis [OF positive])
  have infinite: "double_div (X 0 * (cos (X 3) * X 2) + X 1 * (sin (X 3) * X 2)) 0 = PInf"
    unfolding coeff by (simp add: double_div_def)
  have kept: "nan_to_zero PInf = PInf"
    by (simp add: nan_to_zero_def differs_from_itself_def)
  have dividend: "X 0 * (cos (X 3) * X 2) + X 1 * (sin (X 3) * X 2) = 1 / 10 ^ 170"
    unfolding coeff by simp
  have range: "X 0 * X 0 + X 1 * X 1 = 1 / 10 ^ 340"
    unfolding coeff using square by simp
  from range below dividend above infinite kept model show ?thesis
    by (intro conjI)
qed

section \<open>Prediction with a time step of zero\<close>

lemma below_five: "r < 5 \<Longrightarrow> r = 0 \<or> r = 1 \<or> r = 2 \<or> r = 3 \<or> r = (4 :: nat)"
  by arith

lemma predict_sigma_point_zero: "r < 5 \<Longrightarrow> predict_sigma_point 0 X r = X r"
  by (drule below_five)
    (auto simp add: predict_sigma_point_def add_noise_def ctrv_motion_def Let_def
      vec_of_list_def split_def)

lemma Prediction_zero_Xsig_pred:
  assumes "constructed s" "r < 5" "i < 15"
  shows "Xsig_pred_m (Prediction llt 0 s) r i = Xsig_m (Prediction llt 0 s) r i"
proof -
  have "n_aug_m s = 7"
    using assms(1) by (simp add: constructed_def)
  then show ?thesis
    using assms(2,3) by (simp add: Prediction_Xsig_pred predict_sigma_point_zero col_def)
qed

lemma Prediction_zero_mean:
  assumes c: "constructed s" and r: "r < 5"
  shows "x_m (Prediction llt 0 s) r = x_m s r"
proof -
  let ?L = "llt (augmented_covariance s)"
  let ?X = "Xsig_m (Prediction llt 0 s)"
  have n: "n_aug_m s = 7"
    using c by (simp add: constructed_def)
  have r7: "r < 7"
    using r by simp
  have "x_m (Prediction llt 0 s) r = (\<Sum>i<15. weights_m s i * Xsig_pred_m (Prediction llt 0 s) r i)"
    by (simp add: Prediction_x n)
  also have "\<dots> = (\<Sum>i<15. weights_m s i * ?X r i)"
    by (rule sum.cong) (simp_all add: Prediction_zero_Xsig_pred [OF c r])
  also have "\<dots> = weights_m s 0 * ?X r 0 + (\<Sum>j<7. weights_m s (Suc j) * ?X r (Suc j))
                     + (\<Sum>j<7. weights_m s (j + 8) * ?X r (j + 8))"
    by (rule sum_sigma_points)
  also have "(\<Sum>j<7. weights_m s (Suc j) * ?X r (Suc j)) =
             (\<Sum>j<7. 1 / 6 * (x_m s r + ?L r j * sqrt 3))"
    using r by (intro sum.cong refl)
      (simp add: constructed_weights [OF c] Prediction_Xsig_coeff [OF c] augment_def r7)
  also have "(\<Sum>j<7. weights_m s (j + 8) * ?X r (j + 8)) =
             (\<Sum>j<7. 1 / 6 * (x_m s r - ?L r j * sqrt 3))"
    using r by (intro sum.cong refl)
      (simp add: constructed_weights [OF c] Prediction_Xsig_coeff [OF c] augment_def r7)
  also have "weights_m s 0 * ?X r 0 = - (4 / 3) * x_m s r"
    using r by (simp add: constructed_weights [OF c] Prediction_Xsig_coeff [OF c] augment_def)
  also have "- (4 / 3) * x_m s r + (\<Sum>j<7. 1 / 6 * (x_m s r + ?L r j * sqrt 3))
               + (\<Sum>j<7. 1 / 6 * (x_m s r - ?L r j * sqrt 3)) =
             - (4 / 3) * x_m s r + (\<Sum>j<7::nat. 1 / 3 * x_m s r)"
    by (simp add: sum.distrib [symmetric] algebra_simps)
  also have "\<dots> = x_m s r"
    by simp
  finally show ?thesis .
qed

text \<open>The residual of sigma point \<open>i\<close> before normalization, when the time step is zero.\<close>

lemma Prediction_zero_residual:
  fixes s :: UKF and llt :: "mat \<Rightarrow> mat" and r :: nat
  assumes c: "constructed s" and r: "r < 5"
  defines "L \<equiv> llt (augmented_covariance s)"
  defines "d \<equiv> \<lambda>i. Xsig_pred_m (Prediction llt 0 s) r i - x_m (Prediction llt 0 s) r"
  shows "d 0 = 0"
    and "j < 7 \<Longrightarrow> d (Suc j) = L r j * sqrt 3"
    and "j < 7 \<Longrightarrow> d (j + 8) = - (L r j * sqrt 3)"
proof -
  have r7: "r < 7"
    using r by simp
  show "d 0 = 0"
    using r by (simp add: d_def Prediction_zero_mean [OF c r] Prediction_zero_Xsig_pred [OF c r]
        Prediction_Xsig_coeff [OF c] augment_def)
  show "d (Suc j) = L r j * sqrt 3" if "j < 7"
    using r that by (simp add: d_def Prediction_zero_mean [OF c r] Prediction_zero_Xsig_pred [OF c r]
        Prediction_Xsig_coeff [OF c] augment_def L_def r7)
  show "d (j + 8) = - (L r j * sqrt 3)" if "j < 7"
    using r that by (simp add: d_def Prediction_zero_mean [OF c r] Prediction_zero_Xsig_pred [OF c r]
        Prediction_Xsig_coeff [OF c] augment_def L_def r7)
qed

lemma x_diff_at_coeff:
  "x_diff_at Xsig_pred x i r =
     (if r = 3 then normalize_angle (Xsig_pred 3 i - x 3) else Xsig_pred r i - x r)"
  by (simp add: x_diff_at_def normalize_coeff_def vec_sub_def col_def)

lemma Prediction_zero_x_diff:
  fixes s :: UKF and llt :: "mat \<Rightarrow> mat" and r :: nat
  assumes c: "constructed s" and r: "r < 5"
      and small: "r = 3 \<Longrightarrow> \<forall>j<7. \<bar>sqrt 3 * llt (augmented_covariance s) 3 j\<bar> \<le> pi"
  defines "L \<equiv> llt (augmented_covariance s)"
  defines "xd \<equiv> \<lambda>i. x_diff_at (Xsig_pred_m (Prediction llt 0 s)) (x_m (Prediction llt 0 s)) i r"
  shows "xd 0 = 0"
    and "j < 7 \<Longrightarrow> xd (Suc j) = L r j * sqrt 3"
    and "j < 7 \<Longrightarrow> xd (j + 8) = - (L r j * sqrt 3)"
proof -
  have inside: "- pi \<le> L 3 j * sqrt 3 \<and> L 3 j * sqrt 3 \<le> pi" if "j < 7" "r = 3" for j
    using small that by (auto simp add: L_def abs_le_iff mult.commute)
  have norm_pos: "normalize_angle (L 3 j * sqrt 3) = L 3 j * sqrt 3" if "j < 7" "r = 3" for j
    using inside [OF that] by (simp add: normalize_angle_id)
  have norm_neg: "normalize_angle (- (L 3 j * sqrt 3)) = - (L 3 j * sqrt 3)"
    if "j < 7" "r = 3" for j
    using inside [OF that] by (simp add: normalize_angle_id)
  have norm_zero: "normalize_angle 0 = 0"
    by (simp add: normalize_angle_id)
  show "xd 0 = 0"
  proof (cases "r = 3")
    case True
    with Prediction_zero_residual(1) [OF c r, where llt = llt] show ?thesis
      by (simp add: xd_def x_diff_at_coeff norm_zero)
  next
    case False
    with Prediction_zero_residual(1) [OF c r, where llt = llt] show ?thesis
      by (simp add: xd_def x_diff_at_coeff)
  qed
  show "xd (Suc j) = L r j * sqrt 3" if j: "j < 7"
  proof (cases "r = 3")
    case True
    with Prediction_zero_residual(2) [OF c r j, where llt = llt] norm_pos [OF j] show ?thesis
      by (simp add: xd_def x_diff_at_coeff L_def)
  next
    case False
    with Prediction_zero_residual(2) [OF c r j, where llt = llt] show ?thesis
      by (simp add: xd_def x_diff_at_coeff L_def)
  qed
  show "xd (j + 8) = - (L r j * sqrt 3)" if j: "j < 7"
  proof (cases "r = 3")
    case True
    with Prediction_zero_residual(3) [OF c r j, where llt = llt] norm_neg [OF j] show ?thesis
      by (simp add: xd_def x_diff_at_coeff L_def)
  next
    case False
    with Prediction_zero_residual(3) [OF c r j, where llt = llt] show ?thesis
      by (simp add: xd_def x_diff_at_coeff L_def)
  qed
qed

lemma is_factor_of_coeff:
  "is_factor_of n L M \<Longrightarrow> i < n \<Longrightarrow> j < n \<Longrightarrow> (\<Sum>k<n. L i k * L j k) = M i j"
  by (simp add: is_factor_of_def list_all_iff mat_mul_def transpose_mat_def)

lemma augmented_covariance_top_left:
  "n_x_m s = 5 \<Longrightarrow> r < 5 \<Longrightarrow> c < 5 \<Longrightarrow> augmented_covariance s r c = P_m s r c"
  by (simp add: augmented_covariance_def block_assign_def in_block_def)

lemma Prediction_zero_covariance:
  assumes c: "constructed s" and r: "r < 5" and k: "k < 5"
      and factor: "is_factor_of 7 (llt (augmented_covariance s)) (augmented_covariance s)"
      and small: "r = 3 \<or> k = 3 \<Longrightarrow>
                  \<forall>j<7. \<bar>sqrt 3 * llt (augmented_covariance s) 3 j\<bar> \<le> pi"
  shows "P_m (Prediction llt 0 s) r k = P_m s r k"
proof -
  let ?L = "llt (augmented_covariance s)"
  let ?xd = "\<lambda>i q. x_diff_at (Xsig_pred_m (Prediction llt 0 s)) (x_m (Prediction llt 0 s)) i q"
  have n: "n_aug_m s = 7" and nx: "n_x_m s = 5"
    using c by (simp_all add: constructed_def)
  have small_r: "\<forall>j<7. \<bar>sqrt 3 * ?L 3 j\<bar> \<le> pi" if "r = 3"
    using small that by simp
  have small_k: "\<forall>j<7. \<bar>sqrt 3 * ?L 3 j\<bar> \<le> pi" if "k = 3"
    using small that by simp
  note at_r = Prediction_zero_x_diff [where llt = llt, OF c r small_r]
  note at_k = Prediction_zero_x_diff [where llt = llt, OF c k small_k]
  have "P_m (Prediction llt 0 s) r k = (\<Sum>i<15. weights_m s i * ?xd i r * ?xd i k)"
    by (simp add: Prediction_P n)
  also have "\<dots> = weights_m s 0 * ?xd 0 r * ?xd 0 k
                   + (\<Sum>j<7. weights_m s (Suc j) * ?xd (Suc j) r * ?xd (Suc j) k)
                   + (\<Sum>j<7. weights_m s (j + 8) * ?xd (j + 8) r * ?xd (j + 8) k)"
    by (rule sum_sigma_points)
  also have "weights_m s 0 * ?xd 0 r * ?xd 0 k = 0"
    by (simp add: at_r(1))
  also have "(\<Sum>j<7. weights_m s (Suc j) * ?xd (Suc j) r * ?xd (Suc j) k) =
             (\<Sum>j<7. 1 / 2 * (?L r j * ?L k j))"
    by (intro sum.cong refl) (simp add: constructed_weights [OF c] at_r(2) at_k(2))
  also have "(\<Sum>j<7. weights_m s (j + 8) * ?xd (j + 8) r * ?xd (j + 8) k) =
             (\<Sum>j<7. 1 / 2 * (?L r j * ?L k j))"
    by (intro sum.cong refl) (simp add: constructed_weights [OF c] at_r(3) at_k(3))
  also have "0 + (\<Sum>j<7. 1 / 2 * (?L r j * ?L k j)) + (\<Sum>j<7. 1 / 2 * (?L r j * ?L k j)) =
             (\<Sum>j<7. ?L r j * ?L k j)"
    unfolding sum_distrib_left [symmetric] by simp
  also have "\<dots> = augmented_covariance s r k"
    using r k by (intro is_factor_of_coeff [OF factor]) simp_all
  also have "\<dots> = P_m s r k"
    by (rule augmented_covariance_top_left [OF nx r k])
  finally show ?thesis .
qed

lemma augmented_covariance_tracking_example:
  "augmented_covariance tracking_example =
     block_assign 5 5 2 2 (mat_of_rows [[3969 / 10000, 0], [0, 36 / 25]])
       (block_assign 0 0 5 5
          (mat_of_rows [[1, 0, 0, 0, 0], [0, 1, 0, 0, 0], [0, 0, 1000, 0, 0],
                        [0, 0, 0, 100, 0], [0, 0, 0, 0, 1]])
          zero_mat)"
  by (simp add: augmented_covariance_def tracking_example_fields UKF_ctor_def Let_def
        zero_memory_def fun_eq_iff block_assign_def)

lemma factor_tracking_example:
  "is_factor_of 7 (llt_diagonal (augmented_covariance tracking_example))
     (augmented_covariance tracking_example)"
  unfolding augmented_covariance_tracking_example
  by (simp add: is_factor_of_def upt_rec mat_mul_def transpose_mat_def llt_diagonal_def
        block_assign_def in_block_def mat_of_rows_def vec_of_list_def zero_mat_def
        eval_nat_numeral)

lemma below_seven:
  "i < 7 \<Longrightarrow> i = 0 \<or> i = 1 \<or> i = 2 \<or> i = 3 \<or> i = 4 \<or> i = 5 \<or> i = (6 :: nat)"
  by arith

lemma positive_definite_tracking_example:
  "positive_definite 7 (augmented_covariance tracking_example)"
  unfolding positive_definite_def
proof (intro allI impI)
  fix v :: vec
  assume "\<exists>i<7. v i \<noteq> 0"
  then obtain i where i: "i < 7" and vi: "v i \<noteq> 0"
    by blast
  have form: "quad_form 7 v (augmented_covariance tracking_example) =
      v 0 * v 0 + v 1 * v 1 + 1000 * (v 2 * v 2) + 100 * (v 3 * v 3) + v 4 * v 4
        + 3969 / 10000 * (v 5 * v 5) + 36 / 25 * (v 6 * v 6)"
    unfolding augmented_covariance_tracking_example
    by (simp add: quad_form_def block_assign_def in_block_def mat_of_rows_def vec_of_list_def
          zero_mat_def eval_nat_numeral)
  define a where "a = (\<lambda>k. v k * v k)"
  have sq: "0 \<le> a k" for k
    by (simp add: a_def)
  have pos: "0 < a i"
    using vi by (auto simp add: a_def zero_less_mult_iff neq_iff)
  have "quad_form 7 v (augmented_covariance tracking_example) =
      a 0 + a 1 + 1000 * a 2 + 100 * a 3 + a 4 + 3969 / 10000 * a 5 + 36 / 25 * a 6"
    by (simp add: form a_def)
  moreover have "0 < a 0 + a 1 + 1000 * a 2 + 100 * a 3 + a 4 + 3969 / 10000 * a 5 + 36 / 25 * a 6"
    using below_seven [OF i] pos sq [of 0] sq [of 1] sq [of 2] sq [of 3] sq [of 4] sq [of 5]
      sq [of 6]
    by (elim disjE) simp_all
  ultimately show "0 < quad_form 7 v (augmented_covariance tracking_example)"
    by simp
qed

lemma square_below_sixteen:
  fixes a :: real
  assumes "- pi \<le> a" "a \<le> pi"
  shows "a * a \<le> 16"
proof -
  have "- 4 \<le> a" "a \<le> 4"
    using assms pi_less_4 by simp_all
  then have "0 \<le> (4 - a) * (4 + a)"
    by (intro mult_nonneg_nonneg) simp_all
  then show ?thesis
    by (simp add: algebra_simps)
qed

lemma heading_variance_bounded:
  assumes c: "constructed s"
  shows "P_m (Prediction llt delta_t s) 3 3 < 38"
proof -
  let ?t = "\<lambda>i. x_diff_at (Xsig_pred_m (Prediction llt delta_t s)) (x_m (Prediction llt delta_t s)) i 3
              * x_diff_at (Xsig_pred_m (Prediction llt delta_t s)) (x_m (Prediction llt delta_t s)) i 3"
  have n: "n_aug_m s = 7"
    using c by (simp add: constructed_def)
  have upper: "?t i \<le> 16" for i
    by (rule square_below_sixteen) (simp_all add: x_diff_at_coeff normalize_angle_range)
  have lower: "0 \<le> ?t i" for i
    by simp
  have "P_m (Prediction llt delta_t s) 3 3 = (\<Sum>i<15. weights_m s i * ?t i)"
    by (simp add: Prediction_P n mult.assoc)
  also have "\<dots> = weights_m s 0 * ?t 0 + (\<Sum>j<7. weights_m s (Suc j) * ?t (Suc j))
                   + (\<Sum>j<7. weights_m s (j + 8) * ?t (j + 8))"
    by (rule sum_sigma_points)
  also have "(\<Sum>j<7. weights_m s (Suc j) * ?t (Suc j)) = (\<Sum>j<7. 1 / 6 * ?t (Suc j))"
    by (intro sum.cong refl) (simp add: constructed_weights [OF c])
  also have "(\<Sum>j<7. weights_m s (j + 8) * ?t (j + 8)) = (\<Sum>j<7. 1 / 6 * ?t (j + 8))"
    by (intro sum.cong refl) (simp add: constructed_weights [OF c])
  also have "weights_m s 0 * ?t 0 = - (4 / 3) * ?t 0"
    by (simp add: constructed_weights [OF c])
  finally have total: "P_m (Prediction llt delta_t s) 3 3 =
      - (4 / 3) * ?t 0 + (\<Sum>j<7. 1 / 6 * ?t (Suc j)) + (\<Sum>j<7. 1 / 6 * ?t (j + 8))" .
  have first: "(\<Sum>j<7. 1 / 6 * ?t (Suc j)) \<le> (\<Sum>j<7::nat. 1 / 6 * 16)"
    by (intro sum_mono mult_left_mono upper) simp
  have second: "(\<Sum>j<7. 1 / 6 * ?t (j + 8)) \<le> (\<Sum>j<7::nat. 1 / 6 * 16)"
    by (intro sum_mono mult_left_mono upper) simp
  have "(\<Sum>j<7::nat. 1 / 6 * (16 :: real)) = 56 / 3"
    by simp
  with first second lower [of 0] show ?thesis
    unfolding total by linarith
qed

lemma sqrt_three_le_pi: "sqrt 3 \<le> pi"
proof -
  have "sqrt 3 \<le> sqrt 4"
    by (rule real_sqrt_le_mono) simp
  also have "\<dots> = 2"
    by simp
  also have "\<dots> \<le> pi"
    by (rule pi_ge_two)
  finally show ?thesis .
qed

text \<open>
  C4, amended. With a time step of zero the prediction leaves the mean unchanged, for
  every state and every factor. When the matrix \<open>L\<close> handed back by the factorization is
  a factor of the augmented covariance (\<open>L L\<^sup>T\<close> equals it), it leaves every entry of the
  covariance outside the heading row and column unchanged; it leaves the whole covariance
  unchanged when moreover no heading residual \<open>\<surd>3 L(3,j)\<close> of a sigma point lies
  outside the interval from \<open>- \<pi>\<close> to \<open>\<pi>\<close>, so that the angle normalization changes
  nothing; \<open>\<surd>3\<close> is \<open>\<surd>(\<lambda> + n_aug)\<close>.
\<close>

theorem Prediction_zero_time_step:
  fixes s :: UKF and llt :: "mat \<Rightarrow> mat"
  assumes "constructed s"
  shows "(\<forall>r<5. x_m (Prediction llt 0 s) r = x_m s r) \<and>
         (is_factor_of 7 (llt (augmented_covariance s)) (augmented_covariance s) \<longrightarrow>
          (\<forall>r<5. \<forall>c<5. r \<noteq> 3 \<and> c \<noteq> 3 \<longrightarrow> P_m (Prediction llt 0 s) r c = P_m s r c)) \<and>
         (is_factor_of 7 (llt (augmented_covariance s)) (augmented_covariance s) \<and>
          (\<forall>j<7. \<bar>sqrt 3 * llt (augmented_covariance s) 3 j\<bar> \<le> pi) \<longrightarrow>
          (\<forall>r<5. \<forall>c<5. P_m (Prediction llt 0 s) r c = P_m s r c))"
proof -
  let ?factor = "is_factor_of 7 (llt (augmented_covariance s)) (augmented_covariance s)"
  let ?small = "\<forall>j<7. \<bar>sqrt 3 * llt (augmented_covariance s) 3 j\<bar> \<le> pi"
  have mean: "\<forall>r<5. x_m (Prediction llt 0 s) r = x_m s r"
    using assms by (simp add: Prediction_zero_mean)
  have apart: "\<forall>r<5. \<forall>c<5. r \<noteq> 3 \<and> c \<noteq> 3 \<longrightarrow> P_m (Prediction llt 0 s) r c = P_m s r c"
    if factor: ?factor
  proof (intro allI impI)
    fix r c :: nat
    assume "r < 5" "c < 5" "r \<noteq> 3 \<and> c \<noteq> 3"
    with factor show "P_m (Prediction llt 0 s) r c = P_m s r c"
      using Prediction_zero_covariance [where llt = llt and s = s and r = r and k = c, OF assms]
      by blast
  qed
  have whole: "\<forall>r<5. \<forall>c<5. P_m (Prediction llt 0 s) r c = P_m s r c"
    if factor: ?factor and small: ?small
  proof (intro allI impI)
    fix r c :: nat
    assume "r < 5" "c < 5"
    with factor small show "P_m (Prediction llt 0 s) r c = P_m s r c"
      using Prediction_zero_covariance [where llt = llt and s = s and r = r and k = c, OF assms]
      by blast
  qed
  from mean apart whole show ?thesis
    by blast
qed

lemma augmented_covariance_unit_example:
  "augmented_covariance unit_example =
     block_assign 5 5 2 2 (mat_of_rows [[3969 / 10000, 0], [0, 36 / 25]])
       (block_assign 0 0 5 5 identity_mat zero_mat)"
  by (simp add: augmented_covariance_def unit_example_def tracking_example_fields UKF_ctor_def
        Let_def zero_memory_def fun_eq_iff block_assign_def)

theorem Prediction_zero_time_step_witness:
  "constructed unit_example \<and>
   is_factor_of 7 (llt_diagonal (augmented_covariance unit_example))
     (augmented_covariance unit_example) \<and>
   list_all (\<lambda>j. \<bar>sqrt 3 * llt_diagonal (augmented_covariance unit_example) 3 j\<bar> \<le> pi) [0..<7] \<and>
   x_m (Prediction llt_diagonal 0 unit_example) 0 = x_m unit_example 0 \<and>
   x_m (Prediction llt_diagonal 0 unit_example) 3 = x_m unit_example 3 \<and>
   P_m (Prediction llt_diagonal 0 unit_example) 3 3 = P_m unit_example 3 3 \<and>
   P_m (Prediction llt_diagonal 0 unit_example) 3 4 = P_m unit_example 3 4 \<and>
   P_m (Prediction llt_diagonal 0 unit_example) 0 0 = P_m unit_example 0 0"
proof -
  have c: "constructed unit_example"
    by (rule constructed_unit_example)
  have factor: "is_factor_of 7 (llt_diagonal (augmented_covariance unit_example))
      (augmented_covariance unit_example)"
    unfolding augmented_covariance_unit_example
    by (simp add: is_factor_of_def upt_rec mat_mul_def transpose_mat_def llt_diagonal_def
          block_assign_def in_block_def mat_of_rows_def vec_of_list_def zero_mat_def
          identity_mat_def eval_nat_numeral)
  have small: "\<forall>j<7. \<bar>sqrt 3 * llt_diagonal (augmented_covariance unit_example) 3 j\<bar> \<le> pi"
    unfolding augmented_covariance_unit_example
    using sqrt_three_le_pi
    by (simp add: llt_diagonal_def block_assign_def in_block_def identity_mat_def)
  then have listed:
    "list_all (\<lambda>j. \<bar>sqrt 3 * llt_diagonal (augmented_covariance unit_example) 3 j\<bar> \<le> pi) [0..<7]"
    by (simp add: list_all_iff)
  have mean: "\<forall>r<5. x_m (Prediction llt_diagonal 0 unit_example) r = x_m unit_example r"
    and cov: "\<forall>r<5. \<forall>c<5. P_m (Prediction llt_diagonal 0 unit_example) r c = P_m unit_example r c"
    using Prediction_zero_time_step [OF c, of llt_diagonal] factor small
    by blast+
  have "x_m (Prediction llt_diagonal 0 unit_example) 0 = x_m unit_example 0"
    "x_m (Prediction llt_diagonal 0 unit_example) 3 = x_m unit_example 3"
    using mean by simp_all
  moreover have "P_m (Prediction llt_diagonal 0 unit_example) 3 3 = P_m unit_example 3 3"
    "P_m (Prediction llt_diagonal 0 unit_example) 3 4 = P_m unit_example 3 4"
    "P_m (Prediction llt_diagonal 0 unit_example) 0 0 = P_m unit_example 0 0"
    using cov by simp_all
  ultimately show ?thesis
    using c factor listed by blast
qed

text \<open>
  The filter after its first measurement has the heading variance \<open>P(3,3) = 100\<close> and a
  positive definite augmented covariance. The heading residuals \<open>\<plusminus> 10 \<surd>3\<close> are
  normalized, and the variance after a prediction with time step zero is below 38.
\<close>

theorem Prediction_zero_changes_covariance_counterexample:
  "constructed tracking_example \<and>
   positive_definite 7 (augmented_covariance tracking_example) \<and>
   is_factor_of 7 (llt_diagonal (augmented_covariance tracking_example))
     (augmented_covariance tracking_example) \<and>
   P_m tracking_example 3 3 = 100 \<and>
   P_m (Prediction llt_diagonal 0 tracking_example) 3 3 < 38"
proof -
  have "P_m tracking_example 3 3 = 100"
    by (simp add: tracking_example_fields UKF_ctor_P mat_of_rows_def vec_of_list_def)
  then show ?thesis
    by (simp add: constructed_tracking_example positive_definite_tracking_example
          factor_tracking_example heading_variance_bounded)
qed

section \<open>A measurement from the past\<close>

lemma predict_sigma_point_heading:
  "predict_sigma_point delta_t X 3 = X 3 + X 4 * delta_t + 1 / 2 * X 6 * delta_t * delta_t"
  by (simp add: predict_sigma_point_def add_noise_def ctrv_motion_def Let_def vec_of_list_def
        split_def)

lemma Prediction_heading_mean:
  assumes c: "constructed s"
  shows "x_m (Prediction llt delta_t s) 3 = x_m s 3 + x_m s 4 * delta_t"
proof -
  let ?X = "Xsig_m (Prediction llt delta_t s)"
  let ?w = "weights_m s"
  have n: "n_aug_m s = 7"
    using c by (simp add: constructed_def)
  have "x_m (Prediction llt delta_t s) 3 =
          (\<Sum>i<15. ?w i * Xsig_pred_m (Prediction llt delta_t s) 3 i)"
    by (simp add: Prediction_x n)
  also have "\<dots> = (\<Sum>i<15. ?w i * ?X 3 i + ?w i * ?X 4 i * delta_t
                        + ?w i * ?X 6 i * (1 / 2 * delta_t * delta_t))"
    by (intro sum.cong refl)
      (simp add: Prediction_Xsig_pred n predict_sigma_point_heading col_def algebra_simps)
  also have "\<dots> = (\<Sum>i<15. ?w i * ?X 3 i) + (\<Sum>i<15. ?w i * ?X 4 i) * delta_t
                     + (\<Sum>i<15. ?w i * ?X 6 i) * (1 / 2 * delta_t * delta_t)"
    by (simp only: sum.distrib sum_distrib_right)
  also have "\<dots> = augment 5 (x_m s) 3 + augment 5 (x_m s) 4 * delta_t
                     + augment 5 (x_m s) 6 * (1 / 2 * delta_t * delta_t)"
    by (simp only: sigma_weighted_mean [OF c] numeral_less_iff semiring_norm)
  also have "\<dots> = x_m s 3 + x_m s 4 * delta_t"
    by (simp add: augment_def)
  finally show ?thesis .
qed

lemma late_example_fields:
  "is_initialized_m late_example"
  "previous_timestamp_m late_example = 1477010443000000"
  "x_m late_example = vec_of_list [1, 1, 0, 0, 0]"
  "n_x_m late_example = 5"
  "P_m late_example = P_m (UKF_ctor zero_memory)"
  "Q_m late_example = Q_m (UKF_ctor zero_memory)"
  "P_aug late_example = P_aug (UKF_ctor zero_memory)"
  by (simp_all add: late_example_def ProcessMeasurement_first [OF UKF_ctor_uninitialized]
        initial_position_def lidar_at_def vec_of_list_def UKF_ctor_sizes)

lemma constructed_late_example: "constructed late_example"
  using constructed_UKF_ctor [of zero_memory]
  by (simp add: constructed_def late_example_def
        ProcessMeasurement_first [OF UKF_ctor_uninitialized] initial_position_def lidar_at_def)

text \<open>
  Claim C9 does not hold of the source on a measurement far in the past. The filter
  whose first measurement had the time stamp 1477010443000000 receives a lidar
  measurement with the time stamp 0. No ordering check stops it: the time step is
  \<open>- 1477010443\<close> seconds. Sigma point 7 carries the yaw acceleration noise
  \<open>6 / 5 * sqrt 3\<close>; its predicted heading is half of that noise times the square of the
  time step, while the mean heading stays 0. The heading residual of column 7 at line
  252 is therefore \<open>3 / 5 * sqrt 3 * 1477010443\<^sup>2\<close>, above \<open>10 ^ 18\<close>. The loop of line 254
  subtracts \<open>2 * pi\<close> from it; on a \<^verbatim>\<open>double\<close> of that size the subtraction gives back its
  argument, the loop does not end, and neither the rest of \<^verbatim>\<open>Prediction\<close> nor the
  update is reached.
\<close>

theorem late_measurement_heading_residual:
  "is_initialized_m late_example \<and>
   timestamp_m (lidar_at 1 1 0) \<le> previous_timestamp_m late_example \<and>
   real_of_int (timestamp_m (lidar_at 1 1 0) - previous_timestamp_m late_example) / 1000000
     = - 1477010443 \<and>
   Xsig_pred_m (Prediction llt_diagonal (- 1477010443)
                  (late_example\<lparr>previous_timestamp_m := timestamp_m (lidar_at 1 1 0)\<rparr>)) 3 7
     - x_m (Prediction llt_diagonal (- 1477010443)
              (late_example\<lparr>previous_timestamp_m := timestamp_m (lidar_at 1 1 0)\<rparr>)) 3
     = 3 / 5 * sqrt 3 * (1477010443 * 1477010443) \<and>
   10 ^ 18 \<le> 3 / 5 * sqrt 3 * (1477010443 * 1477010443)"
proof -
  let ?s = "late_example\<lparr>previous_timestamp_m := timestamp_m (lidar_at 1 1 0)\<rparr>"
  let ?p = "Prediction llt_diagonal (- 1477010443) ?s"
  have c: "constructed ?s"
    using constructed_late_example by (simp add: constructed_def)
  have n: "n_aug_m ?s = 7"
    using c by (simp add: constructed_def)
  have M: "augmented_covariance ?s =
      block_assign 5 5 2 2 (mat_of_rows [[3969 / 10000, 0], [0, 36 / 25]])
        (block_assign 0 0 5 5
           (mat_of_rows [[1, 0, 0, 0, 0], [0, 1, 0, 0, 0], [0, 0, 1000, 0, 0],
                         [0, 0, 0, 100, 0], [0, 0, 0, 0, 1]])
           zero_mat)"
    by (simp add: augmented_covariance_def late_example_fields UKF_ctor_def Let_def
          zero_memory_def fun_eq_iff block_assign_def)
  have L: "llt_diagonal (augmented_covariance ?s) 3 6 = 0"
    "llt_diagonal (augmented_covariance ?s) 4 6 = 0"
    "llt_diagonal (augmented_covariance ?s) 6 6 = 6 / 5"
    unfolding M
    by (simp_all add: llt_diagonal_def block_assign_def in_block_def mat_of_rows_def
          vec_of_list_def sqrt_noise_variances)
  have a: "augment 5 (x_m late_example) 3 = 0" "augment 5 (x_m late_example) 4 = 0"
    "augment 5 (x_m late_example) 6 = 0"
    by (simp_all add: augment_def late_example_fields vec_of_list_def)
  have X: "Xsig_m ?p 3 7 = 0" "Xsig_m ?p 4 7 = 0" "Xsig_m ?p 6 7 = 6 / 5 * sqrt 3"
    using Prediction_Xsig_coeff(2) [OF c, of 3 6 llt_diagonal "- 1477010443"]
      Prediction_Xsig_coeff(2) [OF c, of 4 6 llt_diagonal "- 1477010443"]
      Prediction_Xsig_coeff(2) [OF c, of 6 6 llt_diagonal "- 1477010443"]
    by (simp_all add: a L)
  have point: "Xsig_pred_m ?p 3 7 = 3 / 5 * sqrt 3 * (1477010443 * 1477010443)"
    by (subst Prediction_Xsig_pred)
      (simp add: n predict_sigma_point_heading col_def X)
  have mean: "x_m ?p 3 = 0"
    by (simp add: Prediction_heading_mean [OF c] late_example_fields vec_of_list_def)
  have step: "real_of_int (timestamp_m (lidar_at 1 1 0) - previous_timestamp_m late_example)
      / 1000000 = - 1477010443"
    by (simp add: late_example_fields lidar_at_def)
  have root: "1 \<le> sqrt 3"
    by simp
  have "(10 :: real) ^ 18 \<le> 3 / 5 * (1477010443 * 1477010443) * 1"
    by simp
  also have "\<dots> \<le> 3 / 5 * (1477010443 * 1477010443) * sqrt 3"
    using root by (intro mult_left_mono) simp_all
  also have "\<dots> = 3 / 5 * sqrt 3 * (1477010443 * 1477010443)"
    by (simp only: mult_ac)
  finally have large: "10 ^ 18 \<le> 3 / 5 * sqrt 3 * (1477010443 * 1477010443)" .
  have "timestamp_m (lidar_at 1 1 0) \<le> previous_timestamp_m late_example"
    by (simp add: late_example_fields lidar_at_def)
  with point mean step large late_example_fields(1) show ?thesis
    by simp
qed

end
